theory Spec2Isabelle
  imports Complex_Main "HOL-Library.Word" "HOL-Library.Sublist"
begin

section \<open>Integer arithmetic of the C source\<close>

text \<open>
  The C integers (\<open>int\<close>, \<open>int64_t\<close>) are modelled as unbounded integers: signed
  overflow is undefined behaviour in C, so the model describes the runs without it.
  The C operator \<open>/\<close> truncates towards zero, unlike \<open>div\<close> on \<open>int\<close>.
\<close>

definition c_div :: "int \<Rightarrow> int \<Rightarrow> int" where
  "c_div a b = (if (a < 0) = (b < 0) then \<bar>a\<bar> div \<bar>b\<bar> else - (\<bar>a\<bar> div \<bar>b\<bar>))"

text \<open>
  The one product of two \<open>int\<close> whose factor comes from the configuration file without
  a check, \<open>g_cfg.sample_rate * 300\<close>, is computed in 32 bits; \<open>int32_wrap\<close> is the
  two's complement value that the compiled code keeps of it.
\<close>

definition int32_wrap :: "int \<Rightarrow> int" where
  "int32_wrap x = (x + 2147483648) mod 4294967296 - 2147483648"

section \<open>Double precision arithmetic of the C source\<close>

text \<open>
  The one \<open>double\<close> of the program is \<open>g_cfg.bg_unmute_delay\<close>, and the one operation on
  it is \<open>(int64_t)(g_cfg.bg_unmute_delay * 1e6)\<close>. A finite \<open>double\<close> is a pair \<open>(m, e)\<close>
  of integers that stands for the number \<open>m * 2 ^ e\<close>; the literal \<open>1e6\<close> is
  \<open>(1000000, 0)\<close>. The product of two doubles is the exact product rounded to 53
  significant bits, to the nearest and to the even neighbour in a tie (IEEE 754
  binary64, the default rounding mode); the conversion to \<open>int64_t\<close> drops the
  fraction, rounding towards zero. Infinities, NaN, products outside the range of the
  normal doubles, and conversions that leave the range of \<open>int64_t\<close> (undefined
  behaviour in C) are not modelled.
\<close>

type_synonym double = "int \<times> int"

text \<open>The number of bits of a natural number: 0 for 0, \<open>k + 1\<close> from \<open>2 ^ k\<close> on.\<close>

fun bit_length :: "nat \<Rightarrow> nat" where
  "bit_length n = (if n = 0 then 0 else Suc (bit_length (n div 2)))"

declare bit_length.simps [simp del]

definition round53 :: "int \<Rightarrow> int \<Rightarrow> double" where
  "round53 m e =
     (if \<bar>m\<bar> < 2 ^ 53 then (m, e)
      else
        (let k = bit_length (nat \<bar>m\<bar>) - 53;
             q = \<bar>m\<bar> div 2 ^ k;
             r = \<bar>m\<bar> mod 2 ^ k;
             q1 = (if 2 * r > 2 ^ k \<or> (2 * r = 2 ^ k \<and> odd q) then q + 1 else q)
         in (sgn m * q1, e + int k)))"

definition double_mul :: "double \<Rightarrow> double \<Rightarrow> double" where
  "double_mul a b = (case a of (m1, e1) \<Rightarrow> case b of (m2, e2) \<Rightarrow> round53 (m1 * m2) (e1 + e2))"

definition double_to_int64 :: "double \<Rightarrow> int" where
  "double_to_int64 d =
     (case d of (m, e) \<Rightarrow> if 0 \<le> e then m * 2 ^ nat e else c_div m (2 ^ nat (- e)))"

text \<open>The real number that a double stands for.\<close>

definition double_val :: "double \<Rightarrow> real" where
  "double_val d =
     (case d of (m, e) \<Rightarrow> if 0 \<le> e then of_int m * 2 ^ nat e else of_int m / 2 ^ nat (- e))"

section \<open>Audio sample queues (AVAudioFifo) and sample planes\<close>

text \<open>
  A sample is the 32-bit pattern of a C \<open>float\<close>; the all-zero pattern written by
  \<open>memset\<close> is the float 0.0. The output is always stereo (\<open>out_channels = 2\<close> on every
  path that sets it), so a queue holds one left/right pair per sample position, oldest
  first, and a frame has two planes.
\<close>

type_synonym sample = "32 word"
type_synonym stereo = "sample \<times> sample"
type_synonym fifo = "stereo list"
type_synonym planes = "sample list \<times> sample list"
type_synonym picture = "8 word list"

definition av_audio_fifo_size :: "fifo \<Rightarrow> int" where
  "av_audio_fifo_size q = int (length q)"

definition av_audio_fifo_write :: "fifo \<Rightarrow> stereo list \<Rightarrow> fifo" where
  "av_audio_fifo_write q xs = q @ xs"

definition av_audio_fifo_reset :: "fifo \<Rightarrow> fifo" where
  "av_audio_fifo_reset q = []"

text \<open>Reading \<open>n\<close> samples removes the oldest \<open>min n size\<close> samples and returns them.\<close>

definition av_audio_fifo_read :: "fifo \<Rightarrow> int \<Rightarrow> stereo list \<times> fifo" where
  "av_audio_fifo_read q n = (take (nat n) q, drop (nat n) q)"

text \<open>
  \<open>av_frame_get_buffer\<close> allocates the planes of a frame without initialising them:
  the content is the parameter \<open>junk\<close>. \<open>store_samples\<close> is the copy of samples read
  from a queue into the start of the planes; \<open>memset_planes\<close> is the loop of
  \<open>memset(f->data[ch], 0, plane_size)\<close> over both channels.
\<close>

definition av_frame_get_buffer :: "sample \<Rightarrow> int \<Rightarrow> planes" where
  "av_frame_get_buffer junk n = (replicate (nat n) junk, replicate (nat n) junk)"

definition store_samples :: "stereo list \<Rightarrow> planes \<Rightarrow> planes" where
  "store_samples xs p =
     (map fst xs @ drop (length xs) (fst p), map snd xs @ drop (length xs) (snd p))"

definition memset_planes :: "int \<Rightarrow> planes \<Rightarrow> planes" where
  "memset_planes n p =
     (replicate (nat n) 0 @ drop (nat n) (fst p), replicate (nat n) 0 @ drop (nat n) (snd p))"

section \<open>Program state\<close>

datatype AudioMode = AUDIO_SRT | AUDIO_GRACE | AUDIO_BG

text \<open>
  A frame handed to an encoder by \<open>avcodec_send_frame\<close>: a video frame with its pts
  and picture, or an audio frame with its pts, \<open>nb_samples\<close> and two planes.
\<close>

datatype enc_frame =
    is_video: VideoFrame (frame_pts: int) (frame_picture: picture)
  | is_audio: AudioFrame (frame_pts: int) (nb_samples: int) (plane0: "sample list") (plane1: "sample list")

text \<open>The status events that the main loop writes with \<open>jlog\<close>.\<close>

datatype event =
    Ev_running | Ev_stopped
  | Ev_srt_active | Ev_srt_grace | Ev_bg_audio_on
  | Ev_video_srt | Ev_video_bg
  | Ev_stats int bool AudioMode

text \<open>
  \<open>OutputCtx\<close>: the two output clocks, the frame size that the audio encoder reports,
  and the frames sent to the encoders so far, in program order.
\<close>

record OutputCtx =
  video_pts :: int
  audio_pts :: int
  frame_size :: int
  sent :: "enc_frame list"

record SrtShared =
  video_data :: picture
  has_video :: bool
  audio_fifo :: fifo
  last_frame_time :: int
  connected :: bool

text \<open>
  \<open>AppState\<close>; \<open>bg_frame\<close> is \<open>None\<close> while \<open>bg_frame->data[0]\<close> is null, \<open>uninit\<close> is
  the content of freshly allocated sample memory.
\<close>

record AppState =
  out :: OutputCtx
  shared :: SrtShared
  bg_frame :: "picture option"
  out_frame :: picture
  bg_audio_fifo :: fifo
  srt_local_fifo :: fifo
  uninit :: sample

text \<open>The fields of \<open>g_cfg\<close>; \<open>bg_unmute_delay\<close> is in seconds.\<close>

record Config =
  srt_url :: string
  bg_file :: string
  stream_id :: string
  out_width :: int
  out_height :: int
  out_fps :: int
  video_bitrate :: int
  audio_bitrate :: int
  sample_rate :: int
  bg_unmute_delay :: double
  out_channels :: int
  srt_timeout_us :: int
  srt_retry_us :: int

text \<open>The locals of \<open>main_loop\<close>, the application state and the events logged.\<close>

record MainLoop =
  app :: AppState
  aframe_sz :: int
  bg_unmute_us :: int
  was_srt_video :: bool
  audio_mode :: AudioMode
  srt_drop_time :: int
  stats_ticker :: int
  events :: "event list"

section \<open>The inbound reader thread\<close>

text \<open>
  Each function below is one critical section of \<open>srt_thread_func\<close>, from
  \<open>pthread_mutex_lock\<close> to \<open>pthread_mutex_unlock\<close>, and so one atomic step on the
  shared slot: after a successful open, after a read error or a timeout (the same
  two assignments in both places), after a scaled video frame, after resampled audio.
\<close>

definition connect_section :: "int \<Rightarrow> SrtShared \<Rightarrow> SrtShared" where
  "connect_section now sh =
     sh\<lparr>connected := True, last_frame_time := now, has_video := False,
        audio_fifo := av_audio_fifo_reset (audio_fifo sh)\<rparr>"

definition disconnect_section :: "SrtShared \<Rightarrow> SrtShared" where
  "disconnect_section sh = sh\<lparr>connected := False, has_video := False\<rparr>"

definition video_section :: "picture \<Rightarrow> int \<Rightarrow> SrtShared \<Rightarrow> SrtShared" where
  "video_section pic now sh =
     sh\<lparr>video_data := pic, has_video := True, last_frame_time := now\<rparr>"

definition audio_section :: "stereo list \<Rightarrow> int \<Rightarrow> SrtShared \<Rightarrow> SrtShared" where
  "audio_section xs now sh =
     sh\<lparr>audio_fifo := av_audio_fifo_write (audio_fifo sh) xs, last_frame_time := now\<rparr>"

text \<open>
  What \<open>av_read_frame\<close> and the decoders give for one packet: a read error, a video
  packet (with the scaled picture when decoding gave a frame), an audio packet (with
  the converted samples when \<open>swr_convert\<close> gave any), or a packet that is neither.
\<close>

datatype srt_packet =
    ReadError
  | VideoPkt "picture option"
  | AudioPkt "stereo list"
  | OtherPkt

text \<open>
  The inputs of one iteration of the reader's loop: whether \<open>open_srt_source\<close>
  succeeds (asked only when no session is open), the packet, and the clock values
  read at the connect, at the publication and at the timeout check.
\<close>

record reader_env =
  open_ok :: bool
  t_connect :: int
  packet :: srt_packet
  t_publish :: int
  t_check :: int

datatype reader_event = Dropped_read_error | Dropped_timeout

text \<open>
  One iteration of \<open>while (g_running)\<close> in \<open>srt_thread_func\<close>. The state is whether a
  session is open (\<open>src.fmt_ctx\<close> not null) and the shared slot; the result adds the
  \<open>srt_dropped\<close> events logged.
\<close>

definition publish_packet :: "reader_env \<Rightarrow> SrtShared \<Rightarrow> SrtShared" where
  "publish_packet env sh =
     (case packet env of
        VideoPkt (Some pic) \<Rightarrow> video_section pic (t_publish env) sh
      | AudioPkt xs \<Rightarrow> (if xs \<noteq> [] then audio_section xs (t_publish env) sh else sh)
      | _ \<Rightarrow> sh)"

definition srt_thread_iter ::
  "Config \<Rightarrow> reader_env \<Rightarrow> bool \<times> SrtShared \<Rightarrow> (bool \<times> SrtShared) \<times> reader_event list" where
  "srt_thread_iter cfg env st =
     (case st of
        (is_open, sh) \<Rightarrow>
          if \<not> is_open \<and> \<not> open_ok env then ((False, sh), [])
          else
            (let sh1 = (if \<not> is_open then connect_section (t_connect env) sh else sh)
             in if packet env = ReadError
                then ((False, disconnect_section sh1), [Dropped_read_error])
                else
                  (let sh2 = publish_packet env sh1;
                       elapsed = t_check env - last_frame_time sh2
                   in if elapsed > srt_timeout_us cfg
                      then ((False, disconnect_section sh2), [Dropped_timeout])
                      else ((True, sh2), []))))"

text \<open>
  Seen from the main thread, the reader is a sequence of its critical sections run
  between two critical sections of the main thread.
\<close>

datatype reader_op =
    Op_connect int
  | Op_disconnect
  | Op_video picture int
  | Op_audio "stereo list" int

fun run_reader_op :: "reader_op \<Rightarrow> SrtShared \<Rightarrow> SrtShared" where
  "run_reader_op (Op_connect now) sh = connect_section now sh"
| "run_reader_op Op_disconnect sh = disconnect_section sh"
| "run_reader_op (Op_video pic now) sh = video_section pic now sh"
| "run_reader_op (Op_audio xs now) sh = audio_section xs now sh"

definition reader_ops :: "reader_op list \<Rightarrow> SrtShared \<Rightarrow> SrtShared" where
  "reader_ops ops sh = fold run_reader_op ops sh"

section \<open>Encode helpers\<close>

text \<open>
  \<open>encode_write_video\<close> is always called with \<open>&app->out\<close> and \<open>app->out_frame\<close>:
  the frame gets the current \<open>video_pts\<close>, which is then incremented, and goes to the
  encoder.
\<close>

definition encode_write_video :: "AppState \<Rightarrow> AppState" where
  "encode_write_video a =
     a\<lparr>out := (out a)\<lparr>video_pts := video_pts (out a) + 1,
                         sent := sent (out a) @ [VideoFrame (video_pts (out a)) (out_frame a)]\<rparr>\<rparr>"

text \<open>
  The \<open>fifo\<close> argument of \<open>encode_one_audio_frame\<close> points into the application
  state: it is \<open>app->srt_local_fifo\<close> or \<open>app->bg_audio_fifo\<close>.
\<close>

datatype fifo_sel = SRT_LOCAL_FIFO | BG_AUDIO_FIFO

fun get_fifo :: "fifo_sel \<Rightarrow> AppState \<Rightarrow> fifo" where
  "get_fifo SRT_LOCAL_FIFO a = srt_local_fifo a"
| "get_fifo BG_AUDIO_FIFO a = bg_audio_fifo a"

fun set_fifo :: "fifo_sel \<Rightarrow> fifo \<Rightarrow> AppState \<Rightarrow> AppState" where
  "set_fifo SRT_LOCAL_FIFO q a = a\<lparr>srt_local_fifo := q\<rparr>"
| "set_fifo BG_AUDIO_FIFO q a = a\<lparr>bg_audio_fifo := q\<rparr>"

text \<open>
  The planes of the frame that \<open>encode_one_audio_frame\<close> builds, and what is left of
  the queue: a full read when the queue has at least \<open>aframe_sz\<close> samples, otherwise
  \<open>memset\<close> of both planes and, when \<open>avail > 0\<close>, a read of \<open>avail\<close> samples.
\<close>

definition fill_audio_frame :: "sample \<Rightarrow> fifo \<Rightarrow> int \<Rightarrow> planes \<times> fifo" where
  "fill_audio_frame junk q sz =
     (let buf = av_frame_get_buffer junk sz;
          avail = av_audio_fifo_size q
      in if avail \<ge> sz then
           (case av_audio_fifo_read q sz of (xs, rest) \<Rightarrow> (store_samples xs buf, rest))
         else
           (let zeroed = memset_planes sz buf
            in if avail > 0 then
                 (case av_audio_fifo_read q avail of (xs, rest) \<Rightarrow> (store_samples xs zeroed, rest))
               else (zeroed, q)))"

definition encode_one_audio_frame :: "AppState \<Rightarrow> fifo_sel \<Rightarrow> int \<Rightarrow> AppState" where
  "encode_one_audio_frame a sel sz =
     (case fill_audio_frame (uninit a) (get_fifo sel a) sz of
        (data, rest) \<Rightarrow>
          (let a1 = set_fifo sel rest a;
               f = AudioFrame (audio_pts (out a1)) sz (fst data) (snd data)
           in a1\<lparr>out := (out a1)\<lparr>audio_pts := audio_pts (out a1) + sz,
                                    sent := sent (out a1) @ [f]\<rparr>\<rparr>))"

section \<open>Background source\<close>

text \<open>
  What one call of \<open>read_bg_frame\<close> meets: a read error or end of file (negative
  result), a video packet that decodes to a picture (result 1), an audio packet that
  decodes (result 2, the converted samples appended when there are any), or anything
  else (result 0). After a negative result the loop calls \<open>loop_bg\<close>, which seeks the
  file to its start; the file position is not part of this state, the outcomes of the
  reads are inputs.
\<close>

datatype bg_read = Bg_error | Bg_video picture | Bg_audio "stereo list" | Bg_nothing

fun read_bg_frame :: "bg_read \<Rightarrow> AppState \<Rightarrow> int \<times> AppState" where
  "read_bg_frame Bg_error a = (- 1, a)"
| "read_bg_frame (Bg_video pic) a = (1, a\<lparr>bg_frame := Some pic\<rparr>)"
| "read_bg_frame (Bg_audio xs) a =
     (2, if xs \<noteq> [] then a\<lparr>bg_audio_fifo := av_audio_fifo_write (bg_audio_fifo a) xs\<rparr> else a)"
| "read_bg_frame Bg_nothing a = (0, a)"

text \<open>\<open>for (int i = 0; i < 5 && !have_bg; i++)\<close>; the result is \<open>have_bg\<close>.\<close>

function decode_background :: "(nat \<Rightarrow> bg_read) \<Rightarrow> nat \<Rightarrow> AppState \<Rightarrow> bool \<times> AppState" where
  "decode_background rd i a =
     (if i < 5 then
        (case read_bg_frame (rd i) a of
           (r, a1) \<Rightarrow> if r = 1 then (True, a1) else decode_background rd (i + 1) a1)
      else (False, a))"
  by pat_completeness auto
termination
  by (relation "measure (\<lambda>(rd, i, a). 5 - i)") auto

declare decode_background.simps [simp del]

section \<open>One tick of the main loop\<close>

text \<open>
  The inputs of one tick: the outcome of the \<open>i\<close>-th background read, the critical
  sections that the reader thread ran before the main thread samples the shared slot
  and between that and the audio part of the tick, and the clock values read when the
  inbound video is lost and when the grace period is checked. Sections of the reader
  that run between two iterations of the audio loop are not modelled apart from the
  others.
\<close>

record tick_env =
  bg_reads :: "nat \<Rightarrow> bg_read"
  ops_before_sample :: "reader_op list"
  now_drop :: int
  now_grace :: int
  ops_before_audio :: "reader_op list"

definition sample_srt_video :: "AppState \<Rightarrow> bool \<times> AppState" where
  "sample_srt_video a =
     (if connected (shared a) \<and> has_video (shared a)
      then (True, a\<lparr>out_frame := video_data (shared a)\<rparr>)
      else (False, a))"

text \<open>
  The audio mode state machine is an \<open>if\<close> with one step in its first branch and two
  steps, one after the other, in its second: entering SRT, leaving SRT for GRACE, and
  the end of the grace period.
\<close>

definition srt_entry_step :: "MainLoop \<Rightarrow> MainLoop" where
  "srt_entry_step s =
     (if audio_mode s \<noteq> AUDIO_SRT then
        s\<lparr>events := events s @ [Ev_srt_active],
           audio_mode := AUDIO_SRT,
           app := (app s)\<lparr>bg_audio_fifo := av_audio_fifo_reset (bg_audio_fifo (app s))\<rparr>\<rparr>
      else s)"

definition srt_drop_step :: "int \<Rightarrow> MainLoop \<Rightarrow> MainLoop" where
  "srt_drop_step now s =
     (if audio_mode s = AUDIO_SRT then
        s\<lparr>srt_drop_time := now,
           audio_mode := AUDIO_GRACE,
           events := events s @ [Ev_srt_grace]\<rparr>
      else s)"

definition grace_expiry_step :: "int \<Rightarrow> MainLoop \<Rightarrow> MainLoop" where
  "grace_expiry_step now s =
     (if audio_mode s = AUDIO_GRACE then
        (let since_drop = now - srt_drop_time s
         in if since_drop > bg_unmute_us s then
              s\<lparr>audio_mode := AUDIO_BG, events := events s @ [Ev_bg_audio_on]\<rparr>
            else s)
      else s)"

definition audio_mode_machine :: "bool \<Rightarrow> int \<Rightarrow> int \<Rightarrow> MainLoop \<Rightarrow> MainLoop" where
  "audio_mode_machine use_srt t_drop t_grace s =
     (if use_srt then srt_entry_step s
      else grace_expiry_step t_grace (srt_drop_step t_drop s))"

definition video_edge_log :: "bool \<Rightarrow> MainLoop \<Rightarrow> MainLoop" where
  "video_edge_log use_srt_video s =
     (let s1 = (if use_srt_video \<and> \<not> was_srt_video s then s\<lparr>events := events s @ [Ev_video_srt]\<rparr>
                else if \<not> use_srt_video \<and> was_srt_video s then s\<lparr>events := events s @ [Ev_video_bg]\<rparr>
                else s)
      in s1\<lparr>was_srt_video := use_srt_video\<rparr>)"

definition video_output :: "bool \<Rightarrow> bool \<Rightarrow> AppState \<Rightarrow> AppState" where
  "video_output use_srt_video have_bg a =
     (if use_srt_video then encode_write_video a
      else if have_bg then
        (case bg_frame a of
           None \<Rightarrow> a
         | Some pic \<Rightarrow> encode_write_video (a\<lparr>out_frame := pic\<rparr>))
      else a)"

definition drain_shared_audio :: "AppState \<Rightarrow> AppState" where
  "drain_shared_audio a =
     (let avail = av_audio_fifo_size (audio_fifo (shared a))
      in if avail > 0 then
           (case av_audio_fifo_read (audio_fifo (shared a)) avail of
              (tbuf, rest) \<Rightarrow>
                a\<lparr>shared := (shared a)\<lparr>audio_fifo := rest\<rparr>,
                   srt_local_fifo := av_audio_fifo_write (srt_local_fifo a) tbuf\<rparr>)
         else a)"

definition trim_local_fifo :: "int \<Rightarrow> AppState \<Rightarrow> AppState" where
  "trim_local_fifo srt_max_buf a =
     (let local_sz = av_audio_fifo_size (srt_local_fifo a)
      in if local_sz > srt_max_buf then
           (let discard = local_sz - srt_max_buf
            in case av_audio_fifo_read (srt_local_fifo a) discard of
                 (junk, rest) \<Rightarrow> a\<lparr>srt_local_fifo := rest\<rparr>)
         else a)"

definition grace_reset :: "AppState \<Rightarrow> AppState" where
  "grace_reset a =
     a\<lparr>srt_local_fifo := av_audio_fifo_reset (srt_local_fifo a),
        shared := (shared a)\<lparr>audio_fifo := av_audio_fifo_reset (audio_fifo (shared a))\<rparr>\<rparr>"

text \<open>
  \<open>while (app->out.audio_pts < target_audio)\<close> with its \<open>switch\<close>; \<open>goto audio_done\<close>
  leaves the loop. The result is \<open>None\<close> when the loop does not end.
\<close>

partial_function (option) audio_loop :: "int \<Rightarrow> int \<Rightarrow> AudioMode \<Rightarrow> AppState \<Rightarrow> AppState option" where
  "audio_loop target_audio sz mode a =
     (if audio_pts (out a) < target_audio then
        (case mode of
           AUDIO_SRT \<Rightarrow>
             if av_audio_fifo_size (srt_local_fifo a) \<ge> sz
             then audio_loop target_audio sz mode (encode_one_audio_frame a SRT_LOCAL_FIFO sz)
             else Some a
         | AUDIO_GRACE \<Rightarrow>
             audio_loop target_audio sz mode (grace_reset (encode_one_audio_frame a SRT_LOCAL_FIFO sz))
         | AUDIO_BG \<Rightarrow>
             audio_loop target_audio sz mode (encode_one_audio_frame a BG_AUDIO_FIFO sz))
      else Some a)"

definition stats_step :: "Config \<Rightarrow> MainLoop \<Rightarrow> MainLoop" where
  "stats_step cfg s =
     (let n = stats_ticker s + 1
      in if n \<ge> out_fps cfg then
           s\<lparr>stats_ticker := 0,
              events := events s @ [Ev_stats (out_fps cfg) (connected (shared (app s))) (audio_mode s)]\<rparr>
         else s\<lparr>stats_ticker := n\<rparr>)"

text \<open>
  The tick in two parts. \<open>tick_front\<close> runs from the background decode to the drain
  and trim of the inbound audio, and ends where \<open>target_audio\<close> is computed;
  \<open>tick\<close> adds the audio loop and the statistics. The sleep that paces the loop
  changes no state and is left out.
\<close>

definition srt_max_buf :: "Config \<Rightarrow> int" where
  "srt_max_buf cfg = c_div (int32_wrap (sample_rate cfg * 300)) 1000"

definition target_audio :: "Config \<Rightarrow> AppState \<Rightarrow> int" where
  "target_audio cfg a = c_div (video_pts (out a) * sample_rate cfg) (out_fps cfg)"

definition use_srt_video :: "tick_env \<Rightarrow> MainLoop \<Rightarrow> bool" where
  "use_srt_video env s =
     (let sh = reader_ops (ops_before_sample env) (shared (app s))
      in connected sh \<and> has_video sh)"

definition tick_video :: "tick_env \<Rightarrow> MainLoop \<Rightarrow> MainLoop" where
  "tick_video env s =
     (case decode_background (bg_reads env) 0 (app s) of
        (have_bg, a1) \<Rightarrow>
          (let a2 = a1\<lparr>shared := reader_ops (ops_before_sample env) (shared a1)\<rparr>
           in case sample_srt_video a2 of
                (use_srt, a3) \<Rightarrow>
                  (let s1 = audio_mode_machine use_srt (now_drop env) (now_grace env) (s\<lparr>app := a3\<rparr>);
                       s2 = video_edge_log use_srt s1
                   in s2\<lparr>app := video_output use_srt have_bg (app s2)\<rparr>)))"

definition audio_prepare :: "Config \<Rightarrow> tick_env \<Rightarrow> MainLoop \<Rightarrow> MainLoop" where
  "audio_prepare cfg env s =
     (let a1 = (app s)\<lparr>shared := reader_ops (ops_before_audio env) (shared (app s))\<rparr>
      in if audio_mode s = AUDIO_SRT then
           s\<lparr>app := trim_local_fifo (srt_max_buf cfg) (drain_shared_audio a1)\<rparr>
         else s\<lparr>app := a1\<rparr>)"

definition tick_front :: "Config \<Rightarrow> tick_env \<Rightarrow> MainLoop \<Rightarrow> MainLoop" where
  "tick_front cfg env s = audio_prepare cfg env (tick_video env s)"

definition tick :: "Config \<Rightarrow> tick_env \<Rightarrow> MainLoop \<Rightarrow> MainLoop option" where
  "tick cfg env s =
     (let s1 = tick_front cfg env s
      in case audio_loop (target_audio cfg (app s1)) (aframe_sz s1) (audio_mode s1) (app s1) of
           None \<Rightarrow> None
         | Some a \<Rightarrow> Some (stats_step cfg (s1\<lparr>app := a\<rparr>)))"

section \<open>The main loop and the initial state\<close>

text \<open>
  The state that \<open>main\<close> and \<open>open_output\<close> build before the loop: both clocks 0, no
  frame sent, the slot disconnected and the three queues empty. The encoder's frame
  size and the contents of the uninitialised buffers are parameters.
\<close>

definition initial_app :: "int \<Rightarrow> sample \<Rightarrow> picture \<Rightarrow> picture \<Rightarrow> AppState" where
  "initial_app fsz junk pic_sh pic_out =
     \<lparr>out = \<lparr>video_pts = 0, audio_pts = 0, frame_size = fsz, sent = []\<rparr>,
      shared = \<lparr>video_data = pic_sh, has_video = False, audio_fifo = [],
                last_frame_time = 0, connected = False\<rparr>,
      bg_frame = None, out_frame = pic_out,
      bg_audio_fifo = [], srt_local_fifo = [], uninit = junk\<rparr>"

definition main_loop_init :: "int \<Rightarrow> AppState \<Rightarrow> MainLoop" where
  "main_loop_init unmute_us a =
     \<lparr>app = a,
      aframe_sz = (if frame_size (out a) \<le> 0 then 1024 else frame_size (out a)),
      bg_unmute_us = unmute_us,
      was_srt_video = False,
      audio_mode = AUDIO_BG,
      srt_drop_time = 0,
      stats_ticker = 0,
      events = [Ev_running]\<rparr>"

text \<open>The ticks run while \<open>g_running\<close> is set: one per element of the list.\<close>

fun ticks :: "Config \<Rightarrow> tick_env list \<Rightarrow> MainLoop \<Rightarrow> MainLoop option" where
  "ticks cfg [] s = Some s"
| "ticks cfg (env # envs) s =
     (case tick cfg env s of None \<Rightarrow> None | Some s1 \<Rightarrow> ticks cfg envs s1)"

text \<open>
  \<open>main_loop\<close>: the division \<open>1000000 / g_cfg.out_fps\<close> at its start traps when
  \<open>out_fps\<close> is 0, which is the result \<open>None\<close> here.
\<close>

definition main_loop :: "Config \<Rightarrow> int \<Rightarrow> tick_env list \<Rightarrow> AppState \<Rightarrow> MainLoop option" where
  "main_loop cfg unmute_us envs a =
     (if out_fps cfg = 0 then None
      else case ticks cfg envs (main_loop_init unmute_us a) of
             None \<Rightarrow> None
           | Some s \<Rightarrow> Some (s\<lparr>events := events s @ [Ev_stopped]\<rparr>))"

text \<open>
  \<open>main_loop\<close> above takes the value of its local \<open>bg_unmute_us\<close> as a parameter. The
  source computes it from the configuration, \<open>(int64_t)(g_cfg.bg_unmute_delay * 1e6)\<close>:
  \<open>bg_unmute_us_init\<close> is that initialiser, and \<open>run_main_loop\<close> is the loop as the
  program runs it.
\<close>

definition bg_unmute_us_init :: "Config \<Rightarrow> int" where
  "bg_unmute_us_init cfg = double_to_int64 (double_mul (bg_unmute_delay cfg) (1000000, 0))"

definition run_main_loop :: "Config \<Rightarrow> tick_env list \<Rightarrow> AppState \<Rightarrow> MainLoop option" where
  "run_main_loop cfg envs a = main_loop cfg (bg_unmute_us_init cfg) envs a"

section \<open>Startup: command line and configuration file\<close>

text \<open>
  C strings are lists of characters without the terminating NUL. \<open>c_str\<close> is the
  string that the bytes of a buffer denote: everything before the first NUL.
  \<open>strstr\<close> and \<open>strchr\<close> give the rest of the string from the first match on.
\<close>

definition c_str :: "string \<Rightarrow> string" where
  "c_str bytes = takeWhile (\<lambda>c. c \<noteq> CHR 0x00) bytes"

fun strstr :: "string \<Rightarrow> string \<Rightarrow> string option" where
  "strstr [] needle = (if needle = [] then Some [] else None)"
| "strstr (c # cs) needle =
     (if prefix needle (c # cs) then Some (c # cs) else strstr cs needle)"

fun strchr :: "string \<Rightarrow> char \<Rightarrow> string option" where
  "strchr [] ch = None"
| "strchr (c # cs) ch = (if c = ch then Some (c # cs) else strchr cs ch)"

text \<open>\<open>snprintf(pattern, sizeof(pattern), "\"%s\"", key)\<close> with a buffer of 256.\<close>

definition json_pattern :: "string \<Rightarrow> string" where
  "json_pattern key = take 255 (CHR 0x22 # key @ [CHR 0x22])"

definition json_skip :: "string \<Rightarrow> string" where
  "json_skip p = dropWhile (\<lambda>c. c = CHR '':'' \<or> c = CHR '' '' \<or> c = CHR 0x09) p"

text \<open>
  \<open>json_get_str\<close> gives the new content of \<open>buf\<close>, whose size is \<open>bsize\<close>: the
  default, cut to \<open>bsize - 1\<close> characters by \<open>strncpy\<close>, on each early return.
\<close>

definition json_get_str :: "string \<Rightarrow> string \<Rightarrow> nat \<Rightarrow> string \<Rightarrow> string" where
  "json_get_str json key bsize def =
     (case strstr json (json_pattern key) of
        None \<Rightarrow> take (bsize - 1) def
      | Some p \<Rightarrow>
         (case strchr (drop (length (json_pattern key)) p) (CHR '':'') of
            None \<Rightarrow> take (bsize - 1) def
          | Some p1 \<Rightarrow>
             (case json_skip p1 of
                [] \<Rightarrow> take (bsize - 1) def
              | c # p2 \<Rightarrow>
                 if c \<noteq> CHR 0x22 then take (bsize - 1) def
                 else
                   (case strchr p2 (CHR 0x22) of
                      None \<Rightarrow> take (bsize - 1) def
                    | Some e \<Rightarrow>
                       (let len = length p2 - length e
                        in take (if len \<ge> bsize then bsize - 1 else len) p2)))))"

text \<open>
  \<open>json_get_int\<close>; the parameter \<open>strtol\<close> is the C library's
  \<open>(int)strtol(p, NULL, 10)\<close>.
\<close>

definition json_get_int :: "(string \<Rightarrow> int) \<Rightarrow> string \<Rightarrow> string \<Rightarrow> int \<Rightarrow> int" where
  "json_get_int strtol json key def =
     (case strstr json (json_pattern key) of
        None \<Rightarrow> def
      | Some p \<Rightarrow>
         (case strchr (drop (length (json_pattern key)) p) (CHR '':'') of
            None \<Rightarrow> def
          | Some p1 \<Rightarrow>
             (case json_skip p1 of
                [] \<Rightarrow> strtol []
              | c # p2 \<Rightarrow> if c = CHR 0x22 then def else strtol (c # p2))))"

text \<open>
  \<open>json_get_double\<close>; the parameter \<open>strtod\<close> is the C library's \<open>strtod(p, NULL)\<close>.
\<close>

definition json_get_double :: "(string \<Rightarrow> double) \<Rightarrow> string \<Rightarrow> string \<Rightarrow> double \<Rightarrow> double" where
  "json_get_double strtod json key def =
     (case strstr json (json_pattern key) of
        None \<Rightarrow> def
      | Some p \<Rightarrow>
         (case strchr (drop (length (json_pattern key)) p) (CHR '':'') of
            None \<Rightarrow> def
          | Some p1 \<Rightarrow>
             (case json_skip p1 of
                [] \<Rightarrow> strtod []
              | c # p2 \<Rightarrow> if c = CHR 0x22 then def else strtod (c # p2))))"

text \<open>
  \<open>load_config\<close>: the file system gives the bytes of the file at a path, or \<open>None\<close>
  when it cannot be opened. The result is \<open>None\<close> where the source returns -1.
\<close>

definition load_config ::
  "(string \<Rightarrow> int) \<Rightarrow> (string \<Rightarrow> double) \<Rightarrow> (string \<Rightarrow> string option) \<Rightarrow> string \<Rightarrow> Config
     \<Rightarrow> Config option" where
  "load_config strtol strtod fs path cfg =
     (case fs path of
        None \<Rightarrow> None
      | Some bytes \<Rightarrow>
         if length bytes = 0 \<or> length bytes > 65536 then None
         else
           (let buf = c_str bytes
            in Some (cfg\<lparr>srt_url := json_get_str buf ''srt_url'' 2048 [],
                         bg_file := json_get_str buf ''bg_file'' 2048 ''background.mp4'',
                         stream_id := json_get_str buf ''stream_id'' 256 [],
                         out_width := json_get_int strtol buf ''out_width'' 1280,
                         out_height := json_get_int strtol buf ''out_height'' 720,
                         out_fps := json_get_int strtol buf ''out_fps'' 30,
                         video_bitrate := json_get_int strtol buf ''video_bitrate'' 4000000,
                         audio_bitrate := json_get_int strtol buf ''audio_bitrate'' 128000,
                         sample_rate := json_get_int strtol buf ''sample_rate'' 48000,
                         bg_unmute_delay := json_get_double strtod buf ''bg_unmute_delay'' (5, 0),
                         out_channels := 2,
                         srt_timeout_us := 2000000,
                         srt_retry_us := 500000\<rparr>)))"

text \<open>The defaults that \<open>main\<close> sets; \<open>g_cfg\<close> is zero-initialised before.\<close>

definition default_config :: Config where
  "default_config =
     \<lparr>srt_url = [], bg_file = ''background.mp4'', stream_id = [],
      out_width = 1280, out_height = 720, out_fps = 30,
      video_bitrate = 4000000, audio_bitrate = 128000, sample_rate = 48000,
      bg_unmute_delay = (5, 0),
      out_channels = 2, srt_timeout_us = 2000000, srt_retry_us = 500000\<rparr>"

text \<open>
  The argument loop of \<open>main\<close> over \<open>argv[1..]\<close>; \<open>strncpy\<close> into the buffers of 2048
  keeps at most 2047 characters.
\<close>

fun parse_args :: "string list \<Rightarrow> string option \<Rightarrow> Config \<Rightarrow> string option \<times> Config" where
  "parse_args [] config_path cfg = (config_path, cfg)"
| "parse_args (a # rest) config_path cfg =
     (if a = ''--config'' \<and> rest \<noteq> [] then parse_args (tl rest) (Some (hd rest)) cfg
      else if take 1 a \<noteq> ''-'' \<and> srt_url cfg = [] then
        parse_args rest config_path (cfg\<lparr>srt_url := take 2047 a\<rparr>)
      else if take 1 a \<noteq> ''-'' \<and> srt_url cfg \<noteq> [] then
        parse_args rest config_path (cfg\<lparr>bg_file := take 2047 a\<rparr>)
      else parse_args rest config_path cfg)"

text \<open>
  How the start of \<open>main\<close> ends: the process exits with a code, having printed the
  usage text or not, or it goes on with a configuration.
\<close>

datatype startup = Exit int bool | Start Config

definition main_startup ::
  "(string \<Rightarrow> int) \<Rightarrow> (string \<Rightarrow> double) \<Rightarrow> (string \<Rightarrow> string option) \<Rightarrow> string list
     \<Rightarrow> startup" where
  "main_startup strtol strtod fs argv =
     (case parse_args (tl argv) None default_config of
        (config_path, cfg) \<Rightarrow>
          (case (case config_path of
                   None \<Rightarrow> Some cfg
                 | Some path \<Rightarrow> load_config strtol strtod fs path cfg) of
             None \<Rightarrow> Exit 1 False
           | Some cfg1 \<Rightarrow> if srt_url cfg1 = [] then Exit 1 True else Start cfg1))"

section \<open>Notions used in the statements\<close>

text \<open>The body and the condition of one iteration of the audio loop.\<close>

definition audio_iter :: "AudioMode \<Rightarrow> int \<Rightarrow> AppState \<Rightarrow> AppState" where
  "audio_iter mode sz a =
     (case mode of
        AUDIO_SRT \<Rightarrow> encode_one_audio_frame a SRT_LOCAL_FIFO sz
      | AUDIO_GRACE \<Rightarrow> grace_reset (encode_one_audio_frame a SRT_LOCAL_FIFO sz)
      | AUDIO_BG \<Rightarrow> encode_one_audio_frame a BG_AUDIO_FIFO sz)"

definition audio_cont :: "int \<Rightarrow> int \<Rightarrow> AudioMode \<Rightarrow> AppState \<Rightarrow> bool" where
  "audio_cont t sz mode a =
     (audio_pts (out a) < t \<and> (mode \<noteq> AUDIO_SRT \<or> sz \<le> av_audio_fifo_size (srt_local_fifo a)))"

text \<open>
  The output clocks agree with the frames sent: the video frames carry the pts
  0, 1, 2, ... and \<open>video_pts\<close> is their number; the audio frames carry the pts
  0, \<open>sz\<close>, 2 \<open>sz\<close>, ... and \<open>audio_pts\<close> is \<open>sz\<close> times their number.
\<close>

definition clocks_ok :: "int \<Rightarrow> OutputCtx \<Rightarrow> bool" where
  "clocks_ok sz oc =
     (map frame_pts (filter is_video (sent oc)) = map int [0..<length (filter is_video (sent oc))]
      \<and> video_pts oc = int (length (filter is_video (sent oc)))
      \<and> map frame_pts (filter is_audio (sent oc)) =
          map (\<lambda>i. int i * sz) [0..<length (filter is_audio (sent oc))]
      \<and> audio_pts oc = int (length (filter is_audio (sent oc))) * sz)"

text \<open>
  \<open>whole_frames q pts sz k\<close>: the \<open>k\<close> audio frames made of the first \<open>k\<close> runs of \<open>sz\<close>
  samples of the queue \<open>q\<close>, nothing added, with pts from \<open>pts\<close> on.
\<close>

fun whole_frames :: "fifo \<Rightarrow> int \<Rightarrow> int \<Rightarrow> nat \<Rightarrow> enc_frame list" where
  "whole_frames q pts sz 0 = []"
| "whole_frames q pts sz (Suc k) =
     AudioFrame pts sz (map fst (take (nat sz) q)) (map snd (take (nat sz) q))
       # whole_frames (drop (nat sz) q) (pts + sz) sz k"

text \<open>The picture of the first video outcome among the five background reads of a tick.\<close>

fun bg_picture :: "bg_read \<Rightarrow> picture option" where
  "bg_picture (Bg_video pic) = Some pic"
| "bg_picture _ = None"

definition first_bg_video :: "(nat \<Rightarrow> bg_read) \<Rightarrow> picture option" where
  "first_bg_video rd =
     (case List.map_filter bg_picture (map rd [0..<5]) of [] \<Rightarrow> None | pic # _ \<Rightarrow> Some pic)"

text \<open>The video frame that a tick sends, if any: the inbound picture, or the background's.\<close>

definition tick_video_frames :: "tick_env \<Rightarrow> MainLoop \<Rightarrow> enc_frame list" where
  "tick_video_frames env s =
     (if use_srt_video env s then
        [VideoFrame (video_pts (out (app s)))
           (video_data (reader_ops (ops_before_sample env) (shared (app s))))]
      else
        (case first_bg_video (bg_reads env) of
           None \<Rightarrow> []
         | Some pic \<Rightarrow> [VideoFrame (video_pts (out (app s))) pic]))"

text \<open>The shared slot as it is when an iteration of the reader enters its disconnect.\<close>

definition slot_at_drop :: "reader_env \<Rightarrow> bool \<times> SrtShared \<Rightarrow> SrtShared" where
  "slot_at_drop env st =
     (case st of
        (is_open, sh) \<Rightarrow>
          (let sh1 = (if is_open then sh else connect_section (t_connect env) sh)
           in if packet env = ReadError then sh1 else publish_packet env sh1))"

text \<open>An audio frame is silence when both planes hold only zero samples.\<close>

definition silent :: "enc_frame \<Rightarrow> bool" where
  "silent f = (list_all (\<lambda>x. x = 0) (plane0 f) \<and> list_all (\<lambda>x. x = 0) (plane1 f))"

text \<open>
  The claim on the audio clock as the specification words it, and the bound that
  the loop keeps: the audio clock is less than one audio frame beyond the target, and
  has reached the target unless the inbound audio is the source.
\<close>

definition never_overshoots :: "Config \<Rightarrow> MainLoop \<Rightarrow> bool" where
  "never_overshoots cfg s =
     (audio_pts (out (app s)) \<le> c_div (video_pts (out (app s)) * sample_rate cfg) (out_fps cfg))"

definition audio_clock_inv :: "Config \<Rightarrow> MainLoop \<Rightarrow> bool" where
  "audio_clock_inv cfg s =
     (0 < aframe_sz s \<and> 0 \<le> video_pts (out (app s))
      \<and> audio_pts (out (app s)) < target_audio cfg (app s) + aframe_sz s
      \<and> (audio_mode s = AUDIO_SRT \<or> target_audio cfg (app s) \<le> audio_pts (out (app s))))"

section \<open>Concrete inputs\<close>

text \<open>
  The default configuration with an inbound URL, and a tick in which the first
  background read gives a picture while the reader thread does nothing.
\<close>

definition ex_cfg :: Config where
  "ex_cfg = default_config\<lparr>srt_url := ''srt://127.0.0.1:9000''\<rparr>"

definition tick_bg_only :: tick_env where
  "tick_bg_only =
     \<lparr>bg_reads = (\<lambda>i. Bg_video [16, 128, 128]), ops_before_sample = [],
      now_drop = 0, now_grace = 0, ops_before_audio = []\<rparr>"

text \<open>
  A tick in which all five background reads give audio packets of 1024 samples and
  no picture, while the reader thread does nothing.
\<close>

definition tick_bg_audio_burst :: tick_env where
  "tick_bg_audio_burst =
     \<lparr>bg_reads = (\<lambda>i. Bg_audio (replicate 1024 (0x3F000000, 0x3F000000))),
      ops_before_sample = [], now_drop = 0, now_grace = 0, ops_before_audio = []\<rparr>"

text \<open>
  A tick in which the reader thread has connected and published a picture and 1500
  samples of audio before the main thread samples the slot.
\<close>

definition tick_inbound_up :: tick_env where
  "tick_inbound_up =
     \<lparr>bg_reads = (\<lambda>i. Bg_video [16, 128, 128]),
      ops_before_sample =
        [Op_connect 1000, Op_video [235, 128, 128] 2000,
         Op_audio (replicate 1500 (0x3F800000, 0x3F800000)) 3000],
      now_drop = 0, now_grace = 0, ops_before_audio = []\<rparr>"

text \<open>
  The same with two inbound audio packets of 5600 and 14400 samples, together more
  than the 14400 samples that 300 ms hold at 48000 Hz.
\<close>

definition tick_inbound_burst :: tick_env where
  "tick_inbound_burst =
     \<lparr>bg_reads = (\<lambda>i. Bg_video [16, 128, 128]),
      ops_before_sample =
        [Op_connect 1000, Op_video [235, 128, 128] 2000,
         Op_audio (replicate 5600 (0x3F000000, 0x3F000000)) 3000],
      now_drop = 0, now_grace = 0,
      ops_before_audio = [Op_audio (replicate 14400 (0x3F800000, 0x3F800000)) 4000]\<rparr>"

text \<open>The same with inbound video and no inbound audio.\<close>

definition tick_inbound_video :: tick_env where
  "tick_inbound_video =
     \<lparr>bg_reads = (\<lambda>i. Bg_video [16, 128, 128]),
      ops_before_sample = [Op_connect 1000, Op_video [235, 128, 128] 2000],
      now_drop = 0, now_grace = 0, ops_before_audio = []\<rparr>"

text \<open>
  A tick before which the reader thread has disconnected; the background gives a
  picture, and the two clock reads of the state machine are 1 microsecond apart.
\<close>

definition tick_inbound_lost :: tick_env where
  "tick_inbound_lost =
     \<lparr>bg_reads = (\<lambda>i. Bg_video [16, 128, 128]),
      ops_before_sample = [Op_disconnect],
      now_drop = 40000, now_grace = 40001, ops_before_audio = []\<rparr>"


text \<open>A state whose background queue holds one sample, with an encoder frame size of 4.\<close>

definition ex_app :: AppState where
  "ex_app = (initial_app 4 7 [] [])\<lparr>bg_audio_fifo := [(1, 2)]\<rparr>"

text \<open>
  A shared slot with a live session: a picture and 1024 samples in the queue; and an
  iteration of the reader in which \<open>av_read_frame\<close> fails.
\<close>

definition slot_live :: SrtShared where
  "slot_live =
     \<lparr>video_data = [235, 128, 128], has_video = True,
      audio_fifo = replicate 1024 (0x3F800000, 0x3F800000),
      last_frame_time = 3000, connected = True\<rparr>"

definition iter_read_error :: reader_env where
  "iter_read_error =
     \<lparr>open_ok = False, t_connect = 0, packet = ReadError, t_publish = 0, t_check = 4000\<rparr>"






section \<open>Basic facts\<close>

lemma c_div_nonneg: "0 \<le> a \<Longrightarrow> 0 < b \<Longrightarrow> c_div a b = a div b"
  by (simp add: c_div_def)

lemma int32_wrap_id: "- 2147483648 \<le> x \<Longrightarrow> x < 2147483648 \<Longrightarrow> int32_wrap x = x"
  by (simp add: int32_wrap_def)

lemma fill_audio_frame_full:
  assumes "0 \<le> sz" "sz \<le> int (length q)"
  shows "fill_audio_frame j q sz =
           ((map fst (take (nat sz) q), map snd (take (nat sz) q)), drop (nat sz) q)"
  using assms
  by (auto simp add: fill_audio_frame_def av_audio_fifo_size_def av_audio_fifo_read_def
      store_samples_def av_frame_get_buffer_def min_def)

lemma fill_audio_frame_short:
  assumes "int (length q) < sz"
  shows "fill_audio_frame j q sz =
           ((map fst q @ replicate (nat sz - length q) 0,
             map snd q @ replicate (nat sz - length q) 0), [])"
  using assms
  by (cases "q = []")
     (auto simp add: fill_audio_frame_def av_audio_fifo_size_def av_audio_fifo_read_def
      store_samples_def av_frame_get_buffer_def memset_planes_def Let_def)

lemma encode_audio_out:
  "out (encode_one_audio_frame a sel sz) =
     (out a)\<lparr>audio_pts := audio_pts (out a) + sz,
             sent := sent (out a) @
               [AudioFrame (audio_pts (out a)) sz
                  (fst (fst (fill_audio_frame (uninit a) (get_fifo sel a) sz)))
                  (snd (fst (fill_audio_frame (uninit a) (get_fifo sel a) sz)))]\<rparr>"
  by (cases sel) (simp_all add: encode_one_audio_frame_def Let_def split: prod.splits)

lemma encode_audio_fifo:
  "get_fifo sel (encode_one_audio_frame a sel sz) =
     snd (fill_audio_frame (uninit a) (get_fifo sel a) sz)"
  by (cases sel) (simp_all add: encode_one_audio_frame_def Let_def split: prod.splits)

lemma encode_audio_other:
  "shared (encode_one_audio_frame a sel sz) = shared a"
  "uninit (encode_one_audio_frame a sel sz) = uninit a"
  "bg_frame (encode_one_audio_frame a sel sz) = bg_frame a"
  "out_frame (encode_one_audio_frame a sel sz) = out_frame a"
  by (cases sel; simp add: encode_one_audio_frame_def Let_def split: prod.splits)+

lemma encode_audio_other_fifo:
  "srt_local_fifo (encode_one_audio_frame a BG_AUDIO_FIFO sz) = srt_local_fifo a"
  "bg_audio_fifo (encode_one_audio_frame a SRT_LOCAL_FIFO sz) = bg_audio_fifo a"
  by (simp_all add: encode_one_audio_frame_def Let_def split: prod.splits)

lemma zip_map_fst_snd: "zip (map fst xs) (map snd xs) = xs"
  by (induction xs) auto

lemma list_all_replicate: "list_all P (replicate n x) \<longleftrightarrow> n = 0 \<or> P x"
  by (induction n) auto

lemma ex_cfg_values: "out_fps ex_cfg = 30" "sample_rate ex_cfg = 48000"
  by (simp_all add: ex_cfg_def default_config_def)

section \<open>The audio loop ends\<close>

lemma audio_loop_unfold:
  "audio_loop t sz mode a =
     (if audio_cont t sz mode a then audio_loop t sz mode (audio_iter mode sz a) else Some a)"
  by (subst audio_loop.simps) (cases mode; simp add: audio_cont_def audio_iter_def)

lemma audio_iter_out:
  "audio_pts (out (audio_iter mode sz a)) = audio_pts (out a) + sz"
  "video_pts (out (audio_iter mode sz a)) = video_pts (out a)"
  "frame_size (out (audio_iter mode sz a)) = frame_size (out a)"
  by (cases mode; simp add: audio_iter_def grace_reset_def encode_audio_out)+

lemma audio_iter_sent:
  "\<exists>p0 p1. sent (out (audio_iter mode sz a)) = sent (out a) @ [AudioFrame (audio_pts (out a)) sz p0 p1]"
  by (cases mode; simp add: audio_iter_def grace_reset_def encode_audio_out)

lemma audio_iter_video_frames:
  "filter is_video (sent (out (audio_iter mode sz a))) = filter is_video (sent (out a))"
  using audio_iter_sent [of mode sz a] by auto

lemma audio_loop_rule:
  assumes "0 < sz" and "I a"
    and "\<And>b. I b \<Longrightarrow> audio_cont t sz mode b \<Longrightarrow> I (audio_iter mode sz b)"
  shows "\<exists>a'. audio_loop t sz mode a = Some a' \<and> I a' \<and> \<not> audio_cont t sz mode a'"
  using assms(2)
proof (induction "nat (t - audio_pts (out a))" arbitrary: a rule: less_induct)
  case less
  show ?case
  proof (cases "audio_cont t sz mode a")
    case False
    with less.prems show ?thesis by (subst audio_loop_unfold) simp
  next
    case True
    then have lt: "audio_pts (out a) < t" by (simp add: audio_cont_def)
    have "nat (t - audio_pts (out (audio_iter mode sz a))) < nat (t - audio_pts (out a))"
      using lt assms(1) by (simp add: audio_iter_out)
    moreover have "I (audio_iter mode sz a)" using assms(3) less.prems True by blast
    ultimately obtain a' where "audio_loop t sz mode (audio_iter mode sz a) = Some a'"
      "I a'" "\<not> audio_cont t sz mode a'"
      using less.hyps by blast
    with True show ?thesis by (subst audio_loop_unfold) simp
  qed
qed

section \<open>The parts of a tick\<close>

lemma decode_background_keeps:
  "out (snd (decode_background rd i a)) = out a
   \<and> shared (snd (decode_background rd i a)) = shared a
   \<and> srt_local_fifo (snd (decode_background rd i a)) = srt_local_fifo a
   \<and> uninit (snd (decode_background rd i a)) = uninit a"
proof (induction rd i a rule: decode_background.induct)
  case (1 rd i a)
  show ?case
  proof (cases "i < 5")
    case False
    then show ?thesis by (simp add: decode_background.simps [of rd i a])
  next
    case True
    obtain r a1 where ra: "read_bg_frame (rd i) a = (r, a1)" by (cases "read_bg_frame (rd i) a")
    have keep: "out a1 = out a \<and> shared a1 = shared a \<and> srt_local_fifo a1 = srt_local_fifo a
                \<and> uninit a1 = uninit a"
      using ra by (cases "rd i") (auto split: if_splits)
    show ?thesis
    proof (cases "r = 1")
      case True
      with \<open>i < 5\<close> ra keep show ?thesis by (simp add: decode_background.simps [of rd i a])
    next
      case False
      from "1.IH" [OF \<open>i < 5\<close> ra [symmetric] False] keep \<open>i < 5\<close> ra False
      show ?thesis by (simp add: decode_background.simps [of rd i a])
    qed
  qed
qed

lemma decode_background_result:
  "i \<le> 5 \<Longrightarrow>
   (case List.map_filter bg_picture (map rd [i..<5]) of
      [] \<Rightarrow> \<not> fst (decode_background rd i a)
    | pic # _ \<Rightarrow> fst (decode_background rd i a) \<and> bg_frame (snd (decode_background rd i a)) = Some pic)"
proof (induction rd i a rule: decode_background.induct)
  case (1 rd i a)
  show ?case
  proof (cases "i < 5")
    case False
    then show ?thesis by (simp add: decode_background.simps [of rd i a] List.map_filter_simps split: list.splits)
  next
    case True
    then have upt: "[i..<5] = i # [i + 1..<5]" by (simp add: upt_conv_Cons)
    obtain r a1 where ra: "read_bg_frame (rd i) a = (r, a1)" by (cases "read_bg_frame (rd i) a")
    show ?thesis
    proof (cases "r = 1")
      case True
      then obtain pic where "rd i = Bg_video pic" "bg_frame a1 = Some pic"
        using ra by (cases "rd i") (auto split: if_splits)
      with True \<open>i < 5\<close> ra upt show ?thesis
        by (simp add: decode_background.simps [of rd i a] List.map_filter_simps split: list.splits)
    next
      case False
      then have none: "bg_picture (rd i) = None"
        using ra by (cases "rd i") (auto split: if_splits)
      have "i + 1 \<le> 5" using \<open>i < 5\<close> by simp
      from "1.IH" [OF \<open>i < 5\<close> ra [symmetric] False this] none \<open>i < 5\<close> ra False upt
      show ?thesis by (simp add: decode_background.simps [of rd i a] List.map_filter_simps split: list.splits)
    qed
  qed
qed

lemma decode_background_first:
  "fst (decode_background rd 0 a) = (first_bg_video rd \<noteq> None)"
  "first_bg_video rd = Some pic \<Longrightarrow> bg_frame (snd (decode_background rd 0 a)) = Some pic"
  using decode_background_result [of 0 rd a]
  by (auto simp add: first_bg_video_def split: list.splits)

lemma first_bg_video_None_iff:
  "first_bg_video rd = None \<longleftrightarrow> (\<forall>i<5. bg_picture (rd i) = None)"
proof -
  have "List.map_filter bg_picture (map rd [0..<5]) = [] \<longleftrightarrow> (\<forall>i<5. bg_picture (rd i) = None)"
    by (auto simp add: List.map_filter_def filter_empty_conv)
  moreover have "first_bg_video rd = None \<longleftrightarrow> List.map_filter bg_picture (map rd [0..<5]) = []"
    by (simp add: first_bg_video_def split: list.splits)
  ultimately show ?thesis by simp
qed

lemma first_bg_video_const: "first_bg_video (\<lambda>i. Bg_video pic) = Some pic"
  by (simp add: first_bg_video_def upt_rec [of 0])

lemma audio_mode_machine_keeps:
  "out (app (audio_mode_machine u t1 t2 s)) = out (app s)"
  "shared (app (audio_mode_machine u t1 t2 s)) = shared (app s)"
  "srt_local_fifo (app (audio_mode_machine u t1 t2 s)) = srt_local_fifo (app s)"
  "uninit (app (audio_mode_machine u t1 t2 s)) = uninit (app s)"
  "out_frame (app (audio_mode_machine u t1 t2 s)) = out_frame (app s)"
  "bg_frame (app (audio_mode_machine u t1 t2 s)) = bg_frame (app s)"
  "aframe_sz (audio_mode_machine u t1 t2 s) = aframe_sz s"
  "bg_unmute_us (audio_mode_machine u t1 t2 s) = bg_unmute_us s"
  "was_srt_video (audio_mode_machine u t1 t2 s) = was_srt_video s"
  "stats_ticker (audio_mode_machine u t1 t2 s) = stats_ticker s"
  by (simp_all add: audio_mode_machine_def srt_entry_step_def srt_drop_step_def
      grace_expiry_step_def Let_def)

lemma audio_mode_machine_app_irrelevant:
  "audio_mode (audio_mode_machine u t1 t2 (s\<lparr>app := a\<rparr>)) = audio_mode (audio_mode_machine u t1 t2 s)"
  by (simp add: audio_mode_machine_def srt_entry_step_def srt_drop_step_def
      grace_expiry_step_def Let_def)

lemma audio_mode_machine_srt_iff:
  "audio_mode (audio_mode_machine u t1 t2 s) = AUDIO_SRT \<longleftrightarrow> u"
  by (simp add: audio_mode_machine_def srt_entry_step_def srt_drop_step_def
      grace_expiry_step_def Let_def)

lemma video_edge_log_keeps:
  "app (video_edge_log u s) = app s"
  "audio_mode (video_edge_log u s) = audio_mode s"
  "aframe_sz (video_edge_log u s) = aframe_sz s"
  "bg_unmute_us (video_edge_log u s) = bg_unmute_us s"
  "srt_drop_time (video_edge_log u s) = srt_drop_time s"
  by (simp_all add: video_edge_log_def Let_def)

lemma video_output_keeps:
  "shared (video_output u h a) = shared a"
  "srt_local_fifo (video_output u h a) = srt_local_fifo a"
  "bg_audio_fifo (video_output u h a) = bg_audio_fifo a"
  "uninit (video_output u h a) = uninit a"
  "audio_pts (out (video_output u h a)) = audio_pts (out a)"
  "frame_size (out (video_output u h a)) = frame_size (out a)"
  by (simp_all add: video_output_def encode_write_video_def split: option.splits)

lemma tick_video_unfold:
  assumes "decode_background (bg_reads env) 0 (app s) = (have_bg, a1)"
  shows "tick_video env s =
     (let a2 = a1\<lparr>shared := reader_ops (ops_before_sample env) (shared a1)\<rparr>;
          u = use_srt_video env s;
          a3 = (if u then a2\<lparr>out_frame := video_data (shared a2)\<rparr> else a2);
          s2 = video_edge_log u (audio_mode_machine u (now_drop env) (now_grace env) (s\<lparr>app := a3\<rparr>))
      in s2\<lparr>app := video_output u have_bg (app s2)\<rparr>)"
proof -
  have "shared a1 = shared (app s)"
    using decode_background_keeps [of "bg_reads env" 0 "app s"] assms by simp
  then show ?thesis
    using assms
    by (cases "use_srt_video env s")
       (auto simp add: tick_video_def sample_srt_video_def use_srt_video_def Let_def)
qed

lemma tick_video_locals:
  "aframe_sz (tick_video env s) = aframe_sz s"
  "bg_unmute_us (tick_video env s) = bg_unmute_us s"
  "audio_mode (tick_video env s) =
     audio_mode (audio_mode_machine (use_srt_video env s) (now_drop env) (now_grace env) s)"
proof -
  obtain h a1 where d: "decode_background (bg_reads env) 0 (app s) = (h, a1)"
    by (cases "decode_background (bg_reads env) 0 (app s)")
  show "aframe_sz (tick_video env s) = aframe_sz s"
    "bg_unmute_us (tick_video env s) = bg_unmute_us s"
    "audio_mode (tick_video env s) =
       audio_mode (audio_mode_machine (use_srt_video env s) (now_drop env) (now_grace env) s)"
    by (simp_all add: tick_video_unfold [OF d] Let_def video_edge_log_keeps
        audio_mode_machine_keeps audio_mode_machine_app_irrelevant)
qed

lemma tick_video_app:
  "shared (app (tick_video env s)) = reader_ops (ops_before_sample env) (shared (app s))"
  "srt_local_fifo (app (tick_video env s)) = srt_local_fifo (app s)"
  "uninit (app (tick_video env s)) = uninit (app s)"
  "audio_pts (out (app (tick_video env s))) = audio_pts (out (app s))"
  "frame_size (out (app (tick_video env s))) = frame_size (out (app s))"
proof -
  obtain h a1 where d: "decode_background (bg_reads env) 0 (app s) = (h, a1)"
    by (cases "decode_background (bg_reads env) 0 (app s)")
  have k: "out a1 = out (app s)" "shared a1 = shared (app s)"
    "srt_local_fifo a1 = srt_local_fifo (app s)" "uninit a1 = uninit (app s)"
    using decode_background_keeps [of "bg_reads env" 0 "app s"] d by simp_all
  show "shared (app (tick_video env s)) = reader_ops (ops_before_sample env) (shared (app s))"
    "srt_local_fifo (app (tick_video env s)) = srt_local_fifo (app s)"
    "uninit (app (tick_video env s)) = uninit (app s)"
    "audio_pts (out (app (tick_video env s))) = audio_pts (out (app s))"
    "frame_size (out (app (tick_video env s))) = frame_size (out (app s))"
    by (simp_all add: tick_video_unfold [OF d] Let_def video_edge_log_keeps
        audio_mode_machine_keeps video_output_keeps k)
qed

lemma tick_video_frames_cases:
  "tick_video_frames env s = [] \<or>
   (\<exists>pic. tick_video_frames env s = [VideoFrame (video_pts (out (app s))) pic])"
  by (simp add: tick_video_frames_def split: option.splits)

lemma tick_video_sent:
  "sent (out (app (tick_video env s))) = sent (out (app s)) @ tick_video_frames env s"
  "video_pts (out (app (tick_video env s))) =
     video_pts (out (app s)) + int (length (tick_video_frames env s))"
proof -
  obtain h a1 where d: "decode_background (bg_reads env) 0 (app s) = (h, a1)"
    by (cases "decode_background (bg_reads env) 0 (app s)")
  have k: "out a1 = out (app s)" "shared a1 = shared (app s)"
    using decode_background_keeps [of "bg_reads env" 0 "app s"] d by simp_all
  have h: "h = (first_bg_video (bg_reads env) \<noteq> None)"
    using decode_background_first(1) [of "bg_reads env" "app s"] d by simp
  have b: "first_bg_video (bg_reads env) = Some pic \<Longrightarrow> bg_frame a1 = Some pic" for pic
    using decode_background_first(2) [of "bg_reads env" pic "app s"] d by simp
  show "sent (out (app (tick_video env s))) = sent (out (app s)) @ tick_video_frames env s"
    "video_pts (out (app (tick_video env s))) =
       video_pts (out (app s)) + int (length (tick_video_frames env s))"
    using h b
    by (auto simp add: tick_video_unfold [OF d] Let_def video_edge_log_keeps
        audio_mode_machine_keeps video_output_def encode_write_video_def k
        tick_video_frames_def split: option.splits)
qed

lemma drain_trim_keeps:
  "out (drain_shared_audio a) = out a"
  "uninit (drain_shared_audio a) = uninit a"
  "bg_audio_fifo (drain_shared_audio a) = bg_audio_fifo a"
  "out (trim_local_fifo m a) = out a"
  "uninit (trim_local_fifo m a) = uninit a"
  "shared (trim_local_fifo m a) = shared a"
  "bg_audio_fifo (trim_local_fifo m a) = bg_audio_fifo a"
  by (simp_all add: drain_shared_audio_def trim_local_fifo_def Let_def split: prod.splits)

lemma drain_shared_audio_fifos:
  "srt_local_fifo (drain_shared_audio a) = srt_local_fifo a @ audio_fifo (shared a)"
  "audio_fifo (shared (drain_shared_audio a)) = []"
  by (simp_all add: drain_shared_audio_def av_audio_fifo_size_def av_audio_fifo_read_def
      av_audio_fifo_write_def Let_def)

lemma trim_local_fifo_result:
  assumes "0 \<le> m"
  shows "srt_local_fifo (trim_local_fifo m a) =
           drop (length (srt_local_fifo a) - nat m) (srt_local_fifo a)"
    and "int (length (srt_local_fifo (trim_local_fifo m a))) \<le> m"
  using assms
  by (auto simp add: trim_local_fifo_def av_audio_fifo_size_def av_audio_fifo_read_def Let_def
      nat_diff_distrib)

lemma audio_prepare_keeps:
  "out (app (audio_prepare cfg env s)) = out (app s)"
  "uninit (app (audio_prepare cfg env s)) = uninit (app s)"
  "audio_mode (audio_prepare cfg env s) = audio_mode s"
  "aframe_sz (audio_prepare cfg env s) = aframe_sz s"
  "bg_unmute_us (audio_prepare cfg env s) = bg_unmute_us s"
  by (simp_all add: audio_prepare_def Let_def drain_trim_keeps)

lemma tick_front_out:
  "sent (out (app (tick_front cfg env s))) = sent (out (app s)) @ tick_video_frames env s"
  "video_pts (out (app (tick_front cfg env s))) =
     video_pts (out (app s)) + int (length (tick_video_frames env s))"
  "audio_pts (out (app (tick_front cfg env s))) = audio_pts (out (app s))"
  "frame_size (out (app (tick_front cfg env s))) = frame_size (out (app s))"
  by (simp_all add: tick_front_def audio_prepare_keeps tick_video_sent tick_video_app)

lemma tick_front_locals:
  "aframe_sz (tick_front cfg env s) = aframe_sz s"
  "bg_unmute_us (tick_front cfg env s) = bg_unmute_us s"
  "audio_mode (tick_front cfg env s) =
     audio_mode (audio_mode_machine (use_srt_video env s) (now_drop env) (now_grace env) s)"
  "uninit (app (tick_front cfg env s)) = uninit (app s)"
  by (simp_all add: tick_front_def audio_prepare_keeps tick_video_locals tick_video_app)

lemma tick_front_srt_iff:
  "audio_mode (tick_front cfg env s) = AUDIO_SRT \<longleftrightarrow> use_srt_video env s"
  by (simp add: tick_front_locals audio_mode_machine_srt_iff)

lemma tick_front_srt_fifos:
  assumes "audio_mode (tick_front cfg env s) = AUDIO_SRT"
  shows "srt_local_fifo (app (tick_front cfg env s)) =
           srt_local_fifo
             (trim_local_fifo (srt_max_buf cfg)
               (drain_shared_audio
                 ((app s)\<lparr>shared := reader_ops (ops_before_audio env)
                                       (reader_ops (ops_before_sample env) (shared (app s)))\<rparr>)))"
    and "audio_fifo (shared (app (tick_front cfg env s))) = []"
proof -
  from assms have m: "audio_mode (tick_video env s) = AUDIO_SRT"
    by (simp add: tick_front_def audio_prepare_keeps)
  then show "srt_local_fifo (app (tick_front cfg env s)) =
           srt_local_fifo
             (trim_local_fifo (srt_max_buf cfg)
               (drain_shared_audio
                 ((app s)\<lparr>shared := reader_ops (ops_before_audio env)
                                       (reader_ops (ops_before_sample env) (shared (app s)))\<rparr>)))"
    by (simp add: tick_front_def audio_prepare_def Let_def tick_video_app
        trim_local_fifo_def drain_shared_audio_def av_audio_fifo_size_def
        av_audio_fifo_read_def av_audio_fifo_write_def)
  from m show "audio_fifo (shared (app (tick_front cfg env s))) = []"
    by (simp add: tick_front_def audio_prepare_def Let_def drain_trim_keeps
        drain_shared_audio_fifos)
qed

lemma stats_step_keeps:
  "app (stats_step cfg s) = app s"
  "aframe_sz (stats_step cfg s) = aframe_sz s"
  "bg_unmute_us (stats_step cfg s) = bg_unmute_us s"
  "audio_mode (stats_step cfg s) = audio_mode s"
  by (simp_all add: stats_step_def Let_def)

lemma tick_rule:
  assumes "0 < aframe_sz s" and "I (app (tick_front cfg env s))"
    and "\<And>b. I b \<Longrightarrow>
           audio_cont (target_audio cfg (app (tick_front cfg env s))) (aframe_sz s)
             (audio_mode (tick_front cfg env s)) b \<Longrightarrow>
           I (audio_iter (audio_mode (tick_front cfg env s)) (aframe_sz s) b)"
  shows "\<exists>s'. tick cfg env s = Some s' \<and> I (app s')
           \<and> \<not> audio_cont (target_audio cfg (app (tick_front cfg env s))) (aframe_sz s)
                 (audio_mode (tick_front cfg env s)) (app s')
           \<and> aframe_sz s' = aframe_sz s \<and> bg_unmute_us s' = bg_unmute_us s
           \<and> audio_mode s' = audio_mode (tick_front cfg env s)"
proof -
  from audio_loop_rule [of "aframe_sz s" I, OF assms]
  obtain a' where "audio_loop (target_audio cfg (app (tick_front cfg env s))) (aframe_sz s)
       (audio_mode (tick_front cfg env s)) (app (tick_front cfg env s)) = Some a'"
    "I a'"
    "\<not> audio_cont (target_audio cfg (app (tick_front cfg env s))) (aframe_sz s)
         (audio_mode (tick_front cfg env s)) a'"
    by blast
  then show ?thesis
    by (simp add: tick_def Let_def tick_front_locals stats_step_keeps)
qed

lemma ticks_rule:
  assumes "Inv s" and "\<And>env s. Inv s \<Longrightarrow> \<exists>s'. tick cfg env s = Some s' \<and> Inv s'"
  shows "\<exists>s'. ticks cfg envs s = Some s' \<and> Inv s'"
  using assms(1)
proof (induction envs arbitrary: s)
  case Nil
  then show ?case by simp
next
  case (Cons env envs)
  from assms(2) [OF Cons.prems] obtain s1 where "tick cfg env s = Some s1" "Inv s1" by blast
  with Cons.IH [of s1] show ?case by simp
qed

lemma ticks_append:
  "ticks cfg (xs @ ys) s = (case ticks cfg xs s of None \<Rightarrow> None | Some s1 \<Rightarrow> ticks cfg ys s1)"
  by (induction xs arbitrary: s) (auto split: option.splits)

lemmas tick_eval =
  main_loop_def main_loop_init_def initial_app_def tick_def tick_front_def
  tick_video_def audio_prepare_def reader_ops_def sample_srt_video_def audio_mode_machine_def
  srt_entry_step_def srt_drop_step_def grace_expiry_step_def
  video_edge_log_def video_output_def encode_write_video_def target_audio_def c_div_def
  audio_loop.simps encode_one_audio_frame_def fill_audio_frame_def av_audio_fifo_size_def
  av_audio_fifo_read_def av_audio_fifo_write_def av_audio_fifo_reset_def
  av_frame_get_buffer_def memset_planes_def store_samples_def stats_step_def
  drain_shared_audio_def trim_local_fifo_def srt_max_buf_def int32_wrap_def grace_reset_def
  connect_section_def disconnect_section_def video_section_def audio_section_def
  decode_background.simps Let_def

section \<open>The audio clock against the video clock\<close>

lemma target_audio_mono:
  assumes "0 < out_fps cfg" "0 \<le> sample_rate cfg" "0 \<le> video_pts (out a)"
    "video_pts (out a) \<le> video_pts (out b)"
  shows "target_audio cfg a \<le> target_audio cfg b"
proof -
  have "video_pts (out a) * sample_rate cfg \<le> video_pts (out b) * sample_rate cfg"
    using assms by (simp add: mult_right_mono)
  moreover have "0 \<le> video_pts (out a) * sample_rate cfg" "0 \<le> video_pts (out b) * sample_rate cfg"
    using assms by simp_all
  ultimately show ?thesis
    using assms(1) by (simp add: target_audio_def c_div_nonneg zdiv_mono1)
qed

lemma tick_audio_clock_inv:
  assumes fps: "0 < out_fps cfg" and sr: "0 \<le> sample_rate cfg" and inv: "audio_clock_inv cfg s"
  shows "\<exists>s'. tick cfg env s = Some s' \<and> audio_clock_inv cfg s' \<and> aframe_sz s' = aframe_sz s"
proof -
  define s1 where "s1 = tick_front cfg env s"
  define t where "t = target_audio cfg (app s1)"
  define I where "I = (\<lambda>b :: AppState. video_pts (out b) = video_pts (out (app s1))
                          \<and> audio_pts (out b) < t + aframe_sz s)"
  from inv have sz: "0 < aframe_sz s" and v0: "0 \<le> video_pts (out (app s))"
    and ub: "audio_pts (out (app s)) < target_audio cfg (app s) + aframe_sz s"
    by (simp_all add: audio_clock_inv_def)
  have vle: "video_pts (out (app s)) \<le> video_pts (out (app s1))"
    by (simp add: s1_def tick_front_out)
  have "target_audio cfg (app s) \<le> t"
    unfolding t_def using fps sr v0 vle by (rule target_audio_mono)
  with ub have I0: "I (app s1)"
    by (simp add: I_def s1_def tick_front_out)
  have step: "I (audio_iter (audio_mode s1) (aframe_sz s) b)"
    if "I b" "audio_cont t (aframe_sz s) (audio_mode s1) b" for b
    using that by (simp add: I_def audio_cont_def audio_iter_out)
  from tick_rule [of s I cfg env, OF sz I0 [unfolded s1_def]] step
  obtain s' where r: "tick cfg env s = Some s'" "I (app s')"
    "\<not> audio_cont t (aframe_sz s) (audio_mode s1) (app s')"
    "aframe_sz s' = aframe_sz s" "audio_mode s' = audio_mode s1"
    unfolding s1_def t_def by blast
  have tt: "target_audio cfg (app s') = t"
    using r(2) by (simp add: I_def t_def target_audio_def)
  have "audio_clock_inv cfg s'"
    using r sz v0 vle tt
    by (auto simp add: audio_clock_inv_def I_def audio_cont_def)
  with r(1) r(4) show ?thesis by blast
qed

lemma initial_audio_clock_inv:
  assumes "0 < out_fps cfg"
  shows "audio_clock_inv cfg (main_loop_init us (initial_app fsz junk p1 p2))"
  using assms
  by (simp add: audio_clock_inv_def main_loop_init_def initial_app_def target_audio_def c_div_def)

text \<open>
  C1, amended. After every tick of a run from the initial state, the audio clock is
  below the target \<open>(video_pts * sample_rate) / out_fps\<close> plus one audio frame, and it
  has reached the target unless the audio mode is SRT; the frame length is the
  encoder's frame size, or 1024 when that is not positive.
\<close>

theorem audio_clock_bound:
  assumes "0 < out_fps cfg" and "0 \<le> sample_rate cfg"
  shows "\<exists>s. main_loop cfg us envs (initial_app fsz junk p1 p2) = Some s
           \<and> aframe_sz s = (if fsz \<le> 0 then 1024 else fsz)
           \<and> audio_pts (out (app s)) <
               c_div (video_pts (out (app s)) * sample_rate cfg) (out_fps cfg) + aframe_sz s
           \<and> (audio_mode s = AUDIO_SRT
              \<or> c_div (video_pts (out (app s)) * sample_rate cfg) (out_fps cfg)
                   \<le> audio_pts (out (app s)))"
proof -
  define k where "k = (if fsz \<le> 0 then 1024 else fsz)"
  define s0 where "s0 = main_loop_init us (initial_app fsz junk p1 p2)"
  define Inv where "Inv = (\<lambda>s :: MainLoop. audio_clock_inv cfg s \<and> aframe_sz s = k)"
  have "Inv s0"
    using initial_audio_clock_inv [OF assms(1)]
    by (simp add: Inv_def s0_def k_def main_loop_init_def initial_app_def)
  moreover have "\<exists>s'. tick cfg env s = Some s' \<and> Inv s'" if "Inv s" for env s
    using tick_audio_clock_inv [OF assms, of s env] that by (auto simp add: Inv_def)
  ultimately obtain s where "ticks cfg envs s0 = Some s" "Inv s"
    using ticks_rule [of Inv s0 cfg envs] by blast
  with assms(1) show ?thesis
    by (simp add: main_loop_def Inv_def audio_clock_inv_def target_audio_def k_def flip: s0_def)
qed

theorem audio_clock_bound_witness:
  "0 < out_fps ex_cfg \<and> 0 \<le> sample_rate ex_cfg
   \<and> (\<exists>s. main_loop ex_cfg 5000000 [tick_bg_only] (initial_app 1024 0xCDCDCDCD [] []) = Some s
          \<and> aframe_sz s = 1024
          \<and> audio_pts (out (app s)) < c_div (video_pts (out (app s)) * 48000) 30 + aframe_sz s
          \<and> (audio_mode s = AUDIO_SRT
             \<or> c_div (video_pts (out (app s)) * 48000) 30 \<le> audio_pts (out (app s))))"
proof -
  have h1: "0 < out_fps ex_cfg" and h2: "0 \<le> sample_rate ex_cfg"
    by (simp_all add: ex_cfg_values)
  show ?thesis
    using h1 h2
      audio_clock_bound [OF h1 h2, of 5000000 "[tick_bg_only]" 1024 "0xCDCDCDCD" "[]" "[]"]
    by (simp add: ex_cfg_values)
qed

text \<open>
  As the specification words it, the claim fails on the first tick with the default
  configuration: the tick sends one video frame and two audio frames of 1024 samples,
  and ends with the audio clock at 2048 above the target 1600.
\<close>

theorem audio_overshoots_first_tick:
  "map_option (video_pts \<circ> out \<circ> app)
     (main_loop ex_cfg 5000000 [tick_bg_only] (initial_app 1024 0xCDCDCDCD [] [])) = Some 1
   \<and> map_option (audio_pts \<circ> out \<circ> app)
     (main_loop ex_cfg 5000000 [tick_bg_only] (initial_app 1024 0xCDCDCDCD [] [])) = Some 2048
   \<and> map_option (never_overshoots ex_cfg)
     (main_loop ex_cfg 5000000 [tick_bg_only] (initial_app 1024 0xCDCDCDCD [] [])) = Some False"
  by (simp add: tick_eval ex_cfg_values tick_bg_only_def never_overshoots_def)

section \<open>Audio in the grace period\<close>

text \<open>
  C2. The code does not keep the claim: the first audio frame of a GRACE period is
  built from the local queue before the queue is reset, so it carries the inbound
  samples that were left there. Here 476 samples are left after the first tick; the
  second tick is in GRACE and sends three audio frames, of which the first starts with
  those 476 samples, and only the two after it are silence. The two queues are empty
  after the tick.
\<close>

theorem grace_first_frame_not_silent:
  "map_option audio_mode
     (main_loop ex_cfg 5000000 [tick_inbound_up, tick_inbound_lost]
        (initial_app 1024 0xCDCDCDCD [] [])) = Some AUDIO_GRACE
   \<and> map_option (drop 2 \<circ> sent \<circ> out \<circ> app)
     (main_loop ex_cfg 5000000 [tick_inbound_up, tick_inbound_lost]
        (initial_app 1024 0xCDCDCDCD [] [])) =
     Some [VideoFrame 1 [16, 128, 128],
           AudioFrame 1024 1024 (replicate 476 0x3F800000 @ replicate 548 0)
                                (replicate 476 0x3F800000 @ replicate 548 0),
           AudioFrame 2048 1024 (replicate 1024 0) (replicate 1024 0),
           AudioFrame 3072 1024 (replicate 1024 0) (replicate 1024 0)]
   \<and> map_option (map silent \<circ> drop 3 \<circ> sent \<circ> out \<circ> app)
     (main_loop ex_cfg 5000000 [tick_inbound_up, tick_inbound_lost]
        (initial_app 1024 0xCDCDCDCD [] [])) = Some [False, True, True]
   \<and> map_option (srt_local_fifo \<circ> app)
     (main_loop ex_cfg 5000000 [tick_inbound_up, tick_inbound_lost]
        (initial_app 1024 0xCDCDCDCD [] [])) = Some []
   \<and> map_option (audio_fifo \<circ> shared \<circ> app)
     (main_loop ex_cfg 5000000 [tick_inbound_up, tick_inbound_lost]
        (initial_app 1024 0xCDCDCDCD [] [])) = Some []"
  by (simp add: tick_eval ex_cfg_values tick_inbound_up_def tick_inbound_lost_def
      silent_def list_all_replicate)

text \<open>
  What does hold in GRACE: after each iteration of the audio loop both queues are
  empty, and an iteration that starts with an empty local queue sends a silent frame.
  So every frame of a grace period after its first is silence.
\<close>

lemma grace_iter_resets:
  "srt_local_fifo (audio_iter AUDIO_GRACE sz a) = []
   \<and> audio_fifo (shared (audio_iter AUDIO_GRACE sz a)) = []"
  by (simp add: audio_iter_def grace_reset_def av_audio_fifo_reset_def)

lemma grace_iter_silent:
  assumes "0 < sz" and "srt_local_fifo a = []"
  shows "sent (out (audio_iter AUDIO_GRACE sz a)) =
           sent (out a) @ [AudioFrame (audio_pts (out a)) sz (replicate (nat sz) 0) (replicate (nat sz) 0)]
       \<and> silent (AudioFrame (audio_pts (out a)) sz (replicate (nat sz) 0) (replicate (nat sz) 0))"
  using assms
  by (simp add: audio_iter_def grace_reset_def encode_audio_out fill_audio_frame_short
      silent_def list_all_replicate)

section \<open>The video frame of a tick\<close>

text \<open>
  C3, amended. Every tick sends at most one video frame, with the current
  \<open>video_pts\<close>: the sampled inbound picture when \<open>use_srt_video\<close> holds, otherwise the
  picture of the first background read among the tick's five that gives one, and no
  video frame at all when none of the five does, on any tick.
\<close>

theorem tick_video_frame:
  assumes "0 < aframe_sz s"
  shows "\<exists>s'. tick cfg env s = Some s'
           \<and> filter is_video (sent (out (app s'))) =
               filter is_video (sent (out (app s))) @
                 (if use_srt_video env s then
                    [VideoFrame (video_pts (out (app s)))
                       (video_data (reader_ops (ops_before_sample env) (shared (app s))))]
                  else
                    (case first_bg_video (bg_reads env) of
                       None \<Rightarrow> []
                     | Some pic \<Rightarrow> [VideoFrame (video_pts (out (app s))) pic]))
           \<and> (first_bg_video (bg_reads env) = None
                \<longleftrightarrow> (\<forall>i<5. bg_picture (bg_reads env i) = None))"
proof -
  define I where "I = (\<lambda>b :: AppState. filter is_video (sent (out b)) =
      filter is_video (sent (out (app (tick_front cfg env s)))))"
  have I0: "I (app (tick_front cfg env s))" by (simp add: I_def)
  have step: "I (audio_iter m (aframe_sz s) b)" if "I b" for b m
    using that by (simp add: I_def audio_iter_video_frames)
  from tick_rule [of s I cfg env, OF assms I0] step
  obtain s' where "tick cfg env s = Some s'" "I (app s')" by blast
  moreover have "filter is_video (tick_video_frames env s) = tick_video_frames env s"
    by (simp add: tick_video_frames_def split: option.splits)
  ultimately show ?thesis
    by (simp add: I_def tick_front_out first_bg_video_None_iff) (simp add: tick_video_frames_def)
qed

theorem tick_video_frame_witness:
  "0 < aframe_sz (main_loop_init 5000000 (initial_app 1024 0xCDCDCDCD [] []))
   \<and> (\<exists>s'. tick ex_cfg tick_bg_only (main_loop_init 5000000 (initial_app 1024 0xCDCDCDCD [] [])) = Some s'
          \<and> filter is_video (sent (out (app s'))) = [VideoFrame 0 [16, 128, 128]])"
proof -
  have h: "0 < aframe_sz (main_loop_init 5000000 (initial_app 1024 0xCDCDCDCD [] []))"
    by (simp add: main_loop_init_def initial_app_def)
  have u: "\<not> use_srt_video tick_bg_only (main_loop_init 5000000 (initial_app 1024 0xCDCDCDCD [] []))"
    by (simp add: use_srt_video_def tick_bg_only_def main_loop_init_def initial_app_def reader_ops_def)
  have s: "sent (out (app (main_loop_init 5000000 (initial_app 1024 0xCDCDCDCD [] [])))) = []"
    "video_pts (out (app (main_loop_init 5000000 (initial_app 1024 0xCDCDCDCD [] [])))) = 0"
    by (simp_all add: main_loop_init_def initial_app_def)
  have b: "first_bg_video (bg_reads tick_bg_only) = Some [16, 128, 128]"
    by (simp add: tick_bg_only_def first_bg_video_const)
  show ?thesis
    using h tick_video_frame [OF h, of ex_cfg tick_bg_only]
    by (auto simp add: u s b)
qed

text \<open>
  "Only the first tick may produce zero video frames" fails: after a first tick with a
  background picture, a second tick whose five background reads are all audio packets
  sends no video frame, and the number of video frames sent stays 1.
\<close>

theorem second_tick_without_video_frame:
  "map_option (length \<circ> filter is_video \<circ> sent \<circ> out \<circ> app)
     (main_loop ex_cfg 5000000 [tick_bg_only] (initial_app 1024 0xCDCDCDCD [] [])) = Some 1
   \<and> map_option (length \<circ> filter is_video \<circ> sent \<circ> out \<circ> app)
     (main_loop ex_cfg 5000000 [tick_bg_only, tick_bg_audio_burst]
        (initial_app 1024 0xCDCDCDCD [] [])) = Some 1"
  by (simp add: tick_eval ex_cfg_values tick_bg_only_def tick_bg_audio_burst_def)

section \<open>The disconnect of the inbound reader\<close>

lemma srt_thread_iter_drop:
  "snd (srt_thread_iter cfg env st) \<noteq> [] \<longleftrightarrow>
     (fst st \<or> open_ok env) \<and>
     (packet env = ReadError
      \<or> t_check env - last_frame_time (slot_at_drop env st) > srt_timeout_us cfg)"
proof -
  obtain is_open sh where st: "st = (is_open, sh)" by (cases st)
  show ?thesis
    unfolding st
    by (cases is_open; cases "packet env = ReadError")
       (simp_all add: srt_thread_iter_def slot_at_drop_def Let_def)
qed

text \<open>
  C4, amended. An iteration of the reader disconnects exactly when a session is open
  or has just been opened and the read fails or the time since the last activity
  exceeds the timeout. The disconnect closes the session and, in one critical
  section, sets \<open>connected\<close> and \<open>has_video\<close> to false; it leaves the audio queue of
  the shared slot, the picture and the activity time as they are.
\<close>

theorem reader_disconnect:
  assumes "(fst st \<or> open_ok env) \<and>
     (packet env = ReadError
      \<or> t_check env - last_frame_time (slot_at_drop env st) > srt_timeout_us cfg)"
  shows "srt_thread_iter cfg env st =
           ((False, disconnect_section (slot_at_drop env st)),
            [if packet env = ReadError then Dropped_read_error else Dropped_timeout])
       \<and> connected (disconnect_section (slot_at_drop env st)) = False
       \<and> has_video (disconnect_section (slot_at_drop env st)) = False
       \<and> audio_fifo (disconnect_section (slot_at_drop env st)) = audio_fifo (slot_at_drop env st)
       \<and> video_data (disconnect_section (slot_at_drop env st)) = video_data (slot_at_drop env st)
       \<and> last_frame_time (disconnect_section (slot_at_drop env st)) =
           last_frame_time (slot_at_drop env st)
       \<and> (fst st \<and> packet env = ReadError \<longrightarrow> slot_at_drop env st = snd st)"
proof -
  obtain is_open sh where st: "st = (is_open, sh)" by (cases st)
  show ?thesis
    using assms unfolding st
    by (cases is_open; cases "packet env = ReadError")
       (simp_all add: srt_thread_iter_def slot_at_drop_def disconnect_section_def Let_def)
qed

theorem reader_disconnect_witness:
  "(fst (True, slot_live) \<or> open_ok iter_read_error)
   \<and> (packet iter_read_error = ReadError
      \<or> t_check iter_read_error - last_frame_time (slot_at_drop iter_read_error (True, slot_live))
          > srt_timeout_us ex_cfg)
   \<and> srt_thread_iter ex_cfg iter_read_error (True, slot_live) =
       ((False, slot_live\<lparr>connected := False, has_video := False\<rparr>), [Dropped_read_error])"
proof -
  have h: "(fst (True, slot_live) \<or> open_ok iter_read_error) \<and>
     (packet iter_read_error = ReadError
      \<or> t_check iter_read_error - last_frame_time (slot_at_drop iter_read_error (True, slot_live))
          > srt_timeout_us ex_cfg)"
    by (simp add: iter_read_error_def)
  have s: "slot_at_drop iter_read_error (True, slot_live) = slot_live"
    by (simp add: slot_at_drop_def iter_read_error_def)
  show ?thesis
    using h reader_disconnect [OF h]
    by (simp add: s disconnect_section_def iter_read_error_def)
qed

text \<open>
  The disconnect does not reset the audio queue: after a read error on a live session
  with 1024 samples queued, the slot is disconnected and still holds the 1024 samples.
\<close>

theorem disconnect_leaves_audio_queue:
  "connected (snd (fst (srt_thread_iter ex_cfg iter_read_error (True, slot_live)))) = False
   \<and> has_video (snd (fst (srt_thread_iter ex_cfg iter_read_error (True, slot_live)))) = False
   \<and> audio_fifo (snd (fst (srt_thread_iter ex_cfg iter_read_error (True, slot_live)))) =
       replicate 1024 (0x3F800000, 0x3F800000)
   \<and> audio_fifo (snd (fst (srt_thread_iter ex_cfg iter_read_error (True, slot_live)))) \<noteq> []"
  by (simp add: srt_thread_iter_def iter_read_error_def slot_live_def disconnect_section_def)

section \<open>Whole frames only from the inbound audio\<close>

lemma whole_frames_snoc:
  "whole_frames q pts sz (Suc k) =
     whole_frames q pts sz k @
       [AudioFrame (pts + int k * sz) sz
          (map fst (take (nat sz) (drop (k * nat sz) q)))
          (map snd (take (nat sz) (drop (k * nat sz) q)))]"
proof (induction k arbitrary: q pts)
  case 0
  show ?case by simp
next
  case (Suc k)
  have "whole_frames q pts sz (Suc (Suc k)) =
      AudioFrame pts sz (map fst (take (nat sz) q)) (map snd (take (nat sz) q))
        # whole_frames (drop (nat sz) q) (pts + sz) sz (Suc k)"
    by simp
  also have "whole_frames (drop (nat sz) q) (pts + sz) sz (Suc k) =
      whole_frames (drop (nat sz) q) (pts + sz) sz k @
       [AudioFrame (pts + sz + int k * sz) sz
          (map fst (take (nat sz) (drop (k * nat sz) (drop (nat sz) q))))
          (map snd (take (nat sz) (drop (k * nat sz) (drop (nat sz) q))))]"
    by (rule Suc.IH)
  finally show ?case
    by (simp add: algebra_simps)
qed

lemma encode_srt_full:
  assumes "0 < sz" "sz \<le> int (length (srt_local_fifo a))"
  shows "sent (out (encode_one_audio_frame a SRT_LOCAL_FIFO sz)) =
           sent (out a) @ [AudioFrame (audio_pts (out a)) sz
                             (map fst (take (nat sz) (srt_local_fifo a)))
                             (map snd (take (nat sz) (srt_local_fifo a)))]"
    and "srt_local_fifo (encode_one_audio_frame a SRT_LOCAL_FIFO sz) = drop (nat sz) (srt_local_fifo a)"
proof -
  have f: "fill_audio_frame (uninit a) (srt_local_fifo a) sz =
      ((map fst (take (nat sz) (srt_local_fifo a)), map snd (take (nat sz) (srt_local_fifo a))),
       drop (nat sz) (srt_local_fifo a))"
    using assms by (simp add: fill_audio_frame_full)
  show "sent (out (encode_one_audio_frame a SRT_LOCAL_FIFO sz)) =
           sent (out a) @ [AudioFrame (audio_pts (out a)) sz
                             (map fst (take (nat sz) (srt_local_fifo a)))
                             (map snd (take (nat sz) (srt_local_fifo a)))]"
    by (simp add: encode_audio_out f)
  show "srt_local_fifo (encode_one_audio_frame a SRT_LOCAL_FIFO sz) = drop (nat sz) (srt_local_fifo a)"
    using encode_audio_fifo [of SRT_LOCAL_FIFO a sz] by (simp add: f)
qed

text \<open>The state of the audio loop in SRT mode after \<open>k\<close> frames from the queue \<open>q\<close>.\<close>

lemma srt_loop_step:
  fixes a :: AppState and q :: fifo
  assumes sz: "0 < sz"
    and inv: "sent (out a) = pre @ whole_frames q p sz k"
      "srt_local_fifo a = drop (k * nat sz) q"
      "int k * sz \<le> int (length q)"
      "audio_pts (out a) = p + int k * sz"
    and cont: "sz \<le> av_audio_fifo_size (srt_local_fifo a)"
  shows "sent (out (encode_one_audio_frame a SRT_LOCAL_FIFO sz)) = pre @ whole_frames q p sz (Suc k)
       \<and> srt_local_fifo (encode_one_audio_frame a SRT_LOCAL_FIFO sz) = drop (Suc k * nat sz) q
       \<and> int (Suc k) * sz \<le> int (length q)
       \<and> audio_pts (out (encode_one_audio_frame a SRT_LOCAL_FIFO sz)) = p + int (Suc k) * sz"
proof -
  from cont have c: "sz \<le> int (length (srt_local_fifo a))"
    by (simp add: av_audio_fifo_size_def)
  have ks: "int (k * nat sz) = int k * sz" using sz by simp
  with inv(3) have "k * nat sz \<le> length q" by linarith
  then have len: "int (length (srt_local_fifo a)) = int (length q) - int k * sz"
    using inv(2) ks by (simp add: of_nat_diff)
  have "drop (nat sz) (drop (k * nat sz) q) = drop (Suc k * nat sz) q"
    by (simp add: add.commute)
  moreover have "int (Suc k) * sz \<le> int (length q)"
    using c len by (simp add: algebra_simps)
  moreover have "sent (out (encode_one_audio_frame a SRT_LOCAL_FIFO sz)) =
      pre @ whole_frames q p sz (Suc k)"
    unfolding whole_frames_snoc encode_srt_full(1) [OF sz c] inv by simp
  moreover have "audio_pts (out (encode_one_audio_frame a SRT_LOCAL_FIFO sz)) = p + int (Suc k) * sz"
    using inv(4) by (simp add: encode_audio_out algebra_simps)
  ultimately show ?thesis
    using encode_srt_full(2) [OF sz c] inv(2) by simp
qed

text \<open>
  C5. In a tick that samples inbound video the audio mode is SRT; the tick sends its
  video frame, and then \<open>k\<close> audio frames that are the first \<open>k\<close> runs of \<open>aframe_sz\<close>
  samples of the local queue as it is after the drain and trim, with nothing added;
  the rest stays in the queue. The loop stops when the target is reached or fewer
  than \<open>aframe_sz\<close> samples are left, so \<open>k = 0\<close> when the queue starts with fewer.
\<close>

theorem srt_whole_frames_only:
  assumes "0 < aframe_sz s" and "use_srt_video env s"
  shows "audio_mode (tick_front cfg env s) = AUDIO_SRT
       \<and> (\<exists>s' k. tick cfg env s = Some s'
            \<and> sent (out (app s')) =
                (sent (out (app s)) @
                   [VideoFrame (video_pts (out (app s)))
                      (video_data (reader_ops (ops_before_sample env) (shared (app s))))]) @
                whole_frames (srt_local_fifo (app (tick_front cfg env s)))
                  (audio_pts (out (app s))) (aframe_sz s) k
            \<and> int k * aframe_sz s \<le> int (length (srt_local_fifo (app (tick_front cfg env s))))
            \<and> (if int (length (srt_local_fifo (app (tick_front cfg env s)))) < aframe_sz s
                then k = 0
                else target_audio cfg (app s') \<le> audio_pts (out (app s'))
                     \<or> int (length (srt_local_fifo (app s'))) < aframe_sz s)
            \<and> srt_local_fifo (app s') =
                drop (k * nat (aframe_sz s)) (srt_local_fifo (app (tick_front cfg env s)))
            \<and> audio_pts (out (app s')) = audio_pts (out (app s)) + int k * aframe_sz s)"
proof -
  define s1 where "s1 = tick_front cfg env s"
  define q where "q = srt_local_fifo (app s1)"
  define pre where "pre = sent (out (app s1))"
  define I where "I = (\<lambda>b :: AppState. video_pts (out b) = video_pts (out (app s1)) \<and> (\<exists>k.
      sent (out b) = pre @ whole_frames q (audio_pts (out (app s))) (aframe_sz s) k
      \<and> srt_local_fifo b = drop (k * nat (aframe_sz s)) q
      \<and> int k * aframe_sz s \<le> int (length q)
      \<and> audio_pts (out b) = audio_pts (out (app s)) + int k * aframe_sz s))"
  have mode: "audio_mode s1 = AUDIO_SRT"
    using assms(2) by (simp add: s1_def tick_front_srt_iff)
  have pre: "pre = sent (out (app s)) @
      [VideoFrame (video_pts (out (app s)))
         (video_data (reader_ops (ops_before_sample env) (shared (app s))))]"
    using assms(2) by (simp add: pre_def s1_def tick_front_out tick_video_frames_def)
  have "sent (out (app s1)) = pre @ whole_frames q (audio_pts (out (app s))) (aframe_sz s) 0
      \<and> srt_local_fifo (app s1) = drop (0 * nat (aframe_sz s)) q
      \<and> int 0 * aframe_sz s \<le> int (length q)
      \<and> audio_pts (out (app s1)) = audio_pts (out (app s)) + int 0 * aframe_sz s"
    by (simp add: pre_def q_def s1_def tick_front_out)
  then have I0: "I (app s1)" unfolding I_def by blast
  have step: "I (audio_iter (audio_mode s1) (aframe_sz s) b)"
    if "I b" "audio_cont (target_audio cfg (app s1)) (aframe_sz s) (audio_mode s1) b" for b
  proof -
    from that(1) obtain k where k:
      "sent (out b) = pre @ whole_frames q (audio_pts (out (app s))) (aframe_sz s) k"
      "srt_local_fifo b = drop (k * nat (aframe_sz s)) q"
      "int k * aframe_sz s \<le> int (length q)"
      "audio_pts (out b) = audio_pts (out (app s)) + int k * aframe_sz s"
      and v: "video_pts (out b) = video_pts (out (app s1))"
      unfolding I_def by blast
    from that(2) mode have c: "aframe_sz s \<le> av_audio_fifo_size (srt_local_fifo b)"
      by (simp add: audio_cont_def)
    have e: "audio_iter (audio_mode s1) (aframe_sz s) b =
        encode_one_audio_frame b SRT_LOCAL_FIFO (aframe_sz s)"
      by (simp add: audio_iter_def mode)
    have "video_pts (out (encode_one_audio_frame b SRT_LOCAL_FIFO (aframe_sz s))) =
        video_pts (out (app s1))"
      using v by (simp add: encode_audio_out)
    with srt_loop_step [OF assms(1) k c] show ?thesis
      unfolding I_def e by blast
  qed
  from tick_rule [of s I cfg env, OF assms(1) I0 [unfolded s1_def]] step
  obtain s' where r: "tick cfg env s = Some s'" "I (app s')"
    "\<not> audio_cont (target_audio cfg (app s1)) (aframe_sz s) (audio_mode s1) (app s')"
    unfolding s1_def by blast
  from r(2) obtain k where k:
    "sent (out (app s')) = pre @ whole_frames q (audio_pts (out (app s))) (aframe_sz s) k"
    "srt_local_fifo (app s') = drop (k * nat (aframe_sz s)) q"
    "int k * aframe_sz s \<le> int (length q)"
    "audio_pts (out (app s')) = audio_pts (out (app s)) + int k * aframe_sz s"
    and v: "video_pts (out (app s')) = video_pts (out (app s1))"
    unfolding I_def by blast
  have t: "target_audio cfg (app s') = target_audio cfg (app s1)"
    using v by (simp add: target_audio_def)
  have stop: "target_audio cfg (app s') \<le> audio_pts (out (app s'))
      \<or> int (length (srt_local_fifo (app s'))) < aframe_sz s"
    using r(3) mode t by (auto simp add: audio_cont_def av_audio_fifo_size_def)
  have k0: "k = 0" if "int (length q) < aframe_sz s"
  proof (rule ccontr)
    assume "k \<noteq> 0"
    then have "1 \<le> int k" by simp
    then have "1 * aframe_sz s \<le> int k * aframe_sz s"
      using assms(1) by (intro mult_right_mono) simp_all
    with k(3) that show False by simp
  qed
  from r(1) k stop k0 mode show ?thesis
    unfolding pre q_def s1_def by (intro conjI exI [of _ s'] exI [of _ k]) simp_all
qed

theorem srt_whole_frames_only_witness:
  "0 < aframe_sz (main_loop_init 5000000 (initial_app 1024 0xCDCDCDCD [] []))
   \<and> use_srt_video tick_inbound_video (main_loop_init 5000000 (initial_app 1024 0xCDCDCDCD [] []))
   \<and> (\<exists>s'. tick ex_cfg tick_inbound_video
               (main_loop_init 5000000 (initial_app 1024 0xCDCDCDCD [] [])) = Some s'
          \<and> sent (out (app s')) = [VideoFrame 0 [235, 128, 128]]
          \<and> audio_pts (out (app s')) = 0)"
proof -
  define s0 where "s0 = main_loop_init 5000000 (initial_app 1024 0xCDCDCDCD [] [])"
  have h1: "0 < aframe_sz s0"
    by (simp add: s0_def main_loop_init_def initial_app_def)
  have h2: "use_srt_video tick_inbound_video s0"
    by (simp add: s0_def use_srt_video_def tick_inbound_video_def main_loop_init_def
        initial_app_def reader_ops_def connect_section_def video_section_def)
  have q: "srt_local_fifo (app (tick_front ex_cfg tick_inbound_video s0)) = []"
    by (simp add: s0_def tick_inbound_video_def tick_eval)
  have v: "sent (out (app s0)) = []" "video_pts (out (app s0)) = 0" "audio_pts (out (app s0)) = 0"
    "aframe_sz s0 = 1024"
    "video_data (reader_ops (ops_before_sample tick_inbound_video) (shared (app s0))) = [235, 128, 128]"
    by (simp_all add: s0_def main_loop_init_def initial_app_def tick_inbound_video_def
        reader_ops_def connect_section_def video_section_def)
  from srt_whole_frames_only [OF h1 h2, of ex_cfg]
  have "\<exists>s'. tick ex_cfg tick_inbound_video s0 = Some s'
          \<and> sent (out (app s')) = [VideoFrame 0 [235, 128, 128]]
          \<and> audio_pts (out (app s')) = 0"
    by (auto simp add: q v)
  with h1 h2 show ?thesis unfolding s0_def by blast
qed

section \<open>The audio mode state machine\<close>



section \<open>The cap on the local queue of inbound audio\<close>

lemma srt_max_buf_exact:
  assumes "0 \<le> sample_rate cfg" and "sample_rate cfg * 300 < 2147483648"
  shows "srt_max_buf cfg = c_div (sample_rate cfg * 300) 1000"
    and "0 \<le> srt_max_buf cfg"
proof -
  have "int32_wrap (sample_rate cfg * 300) = sample_rate cfg * 300"
    using assms by (intro int32_wrap_id) simp_all
  then show "srt_max_buf cfg = c_div (sample_rate cfg * 300) 1000"
    by (simp add: srt_max_buf_def)
  then show "0 \<le> srt_max_buf cfg"
    using assms(1) by (simp add: c_div_nonneg)
qed

text \<open>
  At a sample rate of 8000000 the 32-bit product is negative, and so is the cap: the
  trim then empties the local queue.
\<close>

lemma srt_max_buf_wraps:
  "srt_max_buf (ex_cfg\<lparr>sample_rate := 8000000\<rparr>) = - 1894967
   \<and> srt_local_fifo (app (tick_front (ex_cfg\<lparr>sample_rate := 8000000\<rparr>) tick_inbound_up
        (main_loop_init 5000000 (initial_app 1024 0xCDCDCDCD [] [])))) = []"
  by (simp add: tick_eval tick_inbound_up_def)

text \<open>
  C7. When the audio mode is SRT, at the point where the encode loop begins the
  shared queue has been drained into the local queue, and the local queue holds the
  newest samples of the two, at most \<open>(sample_rate * 300) / 1000\<close> of them: the excess
  is dropped from the old end. The product \<open>sample_rate * 300\<close> is an \<open>int\<close> product in
  the source, so the sample rate is taken below the rate at which it leaves 32 bits.
\<close>

theorem srt_local_fifo_cap:
  assumes "0 \<le> sample_rate cfg" and "sample_rate cfg * 300 < 2147483648"
    and "audio_mode (tick_front cfg env s) = AUDIO_SRT"
  shows "int (length (srt_local_fifo (app (tick_front cfg env s))))
           \<le> c_div (sample_rate cfg * 300) 1000
       \<and> srt_local_fifo (app (tick_front cfg env s)) =
           drop (length (srt_local_fifo (app s) @
                         audio_fifo (reader_ops (ops_before_audio env)
                                       (reader_ops (ops_before_sample env) (shared (app s)))))
                 - nat (c_div (sample_rate cfg * 300) 1000))
             (srt_local_fifo (app s) @
              audio_fifo (reader_ops (ops_before_audio env)
                            (reader_ops (ops_before_sample env) (shared (app s)))))
       \<and> audio_fifo (shared (app (tick_front cfg env s))) = []"
proof -
  define sh where "sh = reader_ops (ops_before_audio env)
                          (reader_ops (ops_before_sample env) (shared (app s)))"
  define a1 where "a1 = drain_shared_audio ((app s)\<lparr>shared := sh\<rparr>)"
  define inbound where "inbound = srt_local_fifo (app s) @ audio_fifo sh"
  note e = srt_max_buf_exact(1) [OF assms(1,2)]
  have m: "0 \<le> srt_max_buf cfg" using assms(1,2) by (rule srt_max_buf_exact(2))
  have q: "srt_local_fifo a1 = inbound"
    by (simp add: a1_def inbound_def drain_shared_audio_fifos)
  have f: "srt_local_fifo (app (tick_front cfg env s)) =
             srt_local_fifo (trim_local_fifo (srt_max_buf cfg) a1)"
    using tick_front_srt_fifos(1) [OF assms(3)] by (simp only: a1_def sh_def)
  have "int (length (srt_local_fifo (app (tick_front cfg env s)))) \<le> srt_max_buf cfg"
    unfolding f by (rule trim_local_fifo_result(2) [OF m])
  moreover have "srt_local_fifo (app (tick_front cfg env s)) =
      drop (length inbound - nat (srt_max_buf cfg)) inbound"
    unfolding f trim_local_fifo_result(1) [OF m] q ..
  ultimately show ?thesis
    using tick_front_srt_fifos(2) [OF assms(3)]
    by (simp only: inbound_def sh_def e simp_thms)
qed

lemma use_srt_video_inbound_up:
  "use_srt_video tick_inbound_up (main_loop_init 5000000 (initial_app 1024 0xCDCDCDCD [] []))"
  by (simp add: use_srt_video_def tick_inbound_up_def main_loop_init_def initial_app_def
      reader_ops_def connect_section_def video_section_def audio_section_def)

lemma inbound_burst_queue:
  "srt_local_fifo (app (main_loop_init 5000000 (initial_app 1024 0xCDCDCDCD [] []))) @
   audio_fifo (reader_ops (ops_before_audio tick_inbound_burst)
     (reader_ops (ops_before_sample tick_inbound_burst)
        (shared (app (main_loop_init 5000000 (initial_app 1024 0xCDCDCDCD [] []))))))
   = replicate 5600 (0x3F000000, 0x3F000000) @ replicate 14400 (0x3F800000, 0x3F800000)"
  by (simp add: tick_inbound_burst_def main_loop_init_def initial_app_def reader_ops_def
      connect_section_def video_section_def audio_section_def av_audio_fifo_reset_def
      av_audio_fifo_write_def)

theorem srt_local_fifo_cap_witness:
  "0 \<le> sample_rate ex_cfg \<and> sample_rate ex_cfg * 300 < 2147483648
   \<and> audio_mode (tick_front ex_cfg tick_inbound_burst
                   (main_loop_init 5000000 (initial_app 1024 0xCDCDCDCD [] []))) = AUDIO_SRT
   \<and> c_div (sample_rate ex_cfg * 300) 1000 = 14400
   \<and> srt_local_fifo (app (tick_front ex_cfg tick_inbound_burst
                   (main_loop_init 5000000 (initial_app 1024 0xCDCDCDCD [] []))))
        = replicate 14400 (0x3F800000, 0x3F800000)
   \<and> audio_fifo (shared (app (tick_front ex_cfg tick_inbound_burst
                   (main_loop_init 5000000 (initial_app 1024 0xCDCDCDCD [] []))))) = []"
proof -
  have h1: "0 \<le> sample_rate ex_cfg" and h2: "sample_rate ex_cfg * 300 < 2147483648"
    by (simp_all add: ex_cfg_values)
  have u: "use_srt_video tick_inbound_burst
             (main_loop_init 5000000 (initial_app 1024 0xCDCDCDCD [] []))"
    by (simp add: use_srt_video_def tick_inbound_burst_def main_loop_init_def initial_app_def
        reader_ops_def connect_section_def video_section_def audio_section_def)
  have h3: "audio_mode (tick_front ex_cfg tick_inbound_burst
                   (main_loop_init 5000000 (initial_app 1024 0xCDCDCDCD [] []))) = AUDIO_SRT"
    by (simp add: tick_front_srt_iff u)
  have c: "c_div (sample_rate ex_cfg * 300) 1000 = 14400"
    by (simp add: ex_cfg_values c_div_def)
  note t = srt_local_fifo_cap [OF h1 h2 h3]
  have "srt_local_fifo (app (tick_front ex_cfg tick_inbound_burst
                   (main_loop_init 5000000 (initial_app 1024 0xCDCDCDCD [] []))))
        = replicate 14400 (0x3F800000, 0x3F800000)"
    unfolding t [THEN conjunct2, THEN conjunct1] inbound_burst_queue c by simp
  with h1 h2 h3 c t show ?thesis by blast
qed

section \<open>One audio frame\<close>

text \<open>
  C8. \<open>encode_one_audio_frame\<close> sends one audio frame of \<open>sz\<close> samples per plane
  whose pts is the old \<open>audio_pts\<close>, and adds \<open>sz\<close> to \<open>audio_pts\<close>. When the queue
  holds at least \<open>sz\<close> samples, the frame holds the oldest \<open>sz\<close> of them and the
  others stay in the queue; otherwise the frame holds all the samples of the queue
  from its start, followed by zeros, and the queue is left empty.
\<close>

theorem encode_one_audio_frame_spec:
  assumes "0 < sz"
  shows "\<exists>p0 p1.
      sent (out (encode_one_audio_frame a sel sz)) =
        sent (out a) @ [AudioFrame (audio_pts (out a)) sz p0 p1]
    \<and> audio_pts (out (encode_one_audio_frame a sel sz)) = audio_pts (out a) + sz
    \<and> length p0 = nat sz \<and> length p1 = nat sz
    \<and> (if sz \<le> av_audio_fifo_size (get_fifo sel a)
       then zip p0 p1 @ get_fifo sel (encode_one_audio_frame a sel sz) = get_fifo sel a
       else get_fifo sel (encode_one_audio_frame a sel sz) = []
          \<and> zip p0 p1 =
              get_fifo sel a @ replicate (nat sz - length (get_fifo sel a)) (0, 0))"
proof (cases "sz \<le> int (length (get_fifo sel a))")
  case True
  define q where "q = get_fifo sel a"
  define xs where "xs = take (nat sz) q"
  have len: "length xs = nat sz" using True assms by (simp add: xs_def q_def)
  have fill: "fill_audio_frame (uninit a) q sz = ((map fst xs, map snd xs), drop (nat sz) q)"
    using True assms by (simp add: fill_audio_frame_full xs_def q_def)
  have "zip (map fst xs) (map snd xs) @ drop (nat sz) q = q"
    by (simp add: zip_map_fst_snd xs_def)
  with True len fill show ?thesis
    by (simp add: encode_audio_out encode_audio_fifo av_audio_fifo_size_def flip: q_def)
next
  case False
  then have lt: "int (length (get_fifo sel a)) < sz" by simp
  have z: "zip (map fst q @ replicate n 0) (map snd q @ replicate n 0) = q @ replicate n (0, 0)"
    for q :: fifo and n
    by (simp add: zip_map_fst_snd zip_replicate)
  from lt show ?thesis
    by (simp add: fill_audio_frame_short encode_audio_out encode_audio_fifo
        av_audio_fifo_size_def z)
qed

theorem encode_one_audio_frame_spec_witness:
  "(0::int) < 4 \<and> (\<exists>p0 p1.
      sent (out (encode_one_audio_frame ex_app BG_AUDIO_FIFO 4)) =
        sent (out ex_app) @ [AudioFrame (audio_pts (out ex_app)) 4 p0 p1]
    \<and> audio_pts (out (encode_one_audio_frame ex_app BG_AUDIO_FIFO 4)) = audio_pts (out ex_app) + 4
    \<and> length p0 = nat 4 \<and> length p1 = nat 4
    \<and> get_fifo BG_AUDIO_FIFO (encode_one_audio_frame ex_app BG_AUDIO_FIFO 4) = []
    \<and> zip p0 p1 = [(1, 2), (0, 0), (0, 0), (0, 0)])"
proof -
  have h: "(0::int) < 4" by simp
  have q: "bg_audio_fifo ex_app = [(1, 2)]"
    by (simp add: ex_app_def initial_app_def)
  show ?thesis
    using h encode_one_audio_frame_spec [OF h, of ex_app BG_AUDIO_FIFO]
    by (simp add: q av_audio_fifo_size_def numeral_eq_Suc)
qed

section \<open>The output clocks\<close>

lemma clocks_ok_video:
  assumes "clocks_ok sz oc" and "sent oc' = sent oc @ [VideoFrame (video_pts oc) pic]"
    and "video_pts oc' = video_pts oc + 1" and "audio_pts oc' = audio_pts oc"
  shows "clocks_ok sz oc'"
  using assms by (simp add: clocks_ok_def)

lemma clocks_ok_audio:
  assumes "clocks_ok sz oc" and "sent oc' = sent oc @ [AudioFrame (audio_pts oc) n p0 p1]"
    and "video_pts oc' = video_pts oc" and "audio_pts oc' = audio_pts oc + sz"
  shows "clocks_ok sz oc'"
  using assms by (simp add: clocks_ok_def algebra_simps)

lemma clocks_ok_tick_front:
  assumes "clocks_ok sz (out (app s))"
  shows "clocks_ok sz (out (app (tick_front cfg env s)))"
proof -
  from tick_video_frames_cases [of env s] show ?thesis
  proof
    assume "tick_video_frames env s = []"
    with assms show ?thesis by (simp add: clocks_ok_def tick_front_out)
  next
    assume "\<exists>pic. tick_video_frames env s = [VideoFrame (video_pts (out (app s))) pic]"
    then obtain pic where "tick_video_frames env s = [VideoFrame (video_pts (out (app s))) pic]"
      by blast
    with assms show ?thesis
      using clocks_ok_video [of sz "out (app s)" "out (app (tick_front cfg env s))" pic]
      by (simp add: tick_front_out)
  qed
qed

lemma clocks_ok_audio_iter:
  assumes "clocks_ok sz (out a)"
  shows "clocks_ok sz (out (audio_iter mode sz a))"
proof -
  from audio_iter_sent [of mode sz a] obtain p0 p1 where
    "sent (out (audio_iter mode sz a)) = sent (out a) @ [AudioFrame (audio_pts (out a)) sz p0 p1]"
    by blast
  with assms show ?thesis
    using clocks_ok_audio [of sz "out a" "out (audio_iter mode sz a)" sz p0 p1]
    by (simp add: audio_iter_out)
qed

lemma tick_clocks:
  assumes sz: "0 < aframe_sz s" and ok: "clocks_ok (aframe_sz s) (out (app s))"
  shows "\<exists>s'. tick cfg env s = Some s' \<and> aframe_sz s' = aframe_sz s
           \<and> clocks_ok (aframe_sz s') (out (app s'))
           \<and> video_pts (out (app s)) \<le> video_pts (out (app s'))
           \<and> audio_pts (out (app s)) \<le> audio_pts (out (app s'))"
proof -
  define I where "I = (\<lambda>b :: AppState. clocks_ok (aframe_sz s) (out b)
      \<and> video_pts (out (app s)) \<le> video_pts (out b) \<and> audio_pts (out (app s)) \<le> audio_pts (out b))"
  have I0: "I (app (tick_front cfg env s))"
    using clocks_ok_tick_front [OF ok] by (simp add: I_def tick_front_out)
  have step: "I (audio_iter m (aframe_sz s) b)" if "I b" for b m
    using that sz by (simp add: I_def clocks_ok_audio_iter audio_iter_out)
  from tick_rule [of s I cfg env, OF sz I0] step
  obtain s' where "tick cfg env s = Some s'" "I (app s')" "aframe_sz s' = aframe_sz s"
    by blast
  then show ?thesis by (auto simp add: I_def)
qed

lemma ticks_clocks:
  assumes "0 < aframe_sz s" and "clocks_ok (aframe_sz s) (out (app s))"
  shows "\<exists>s'. ticks cfg envs s = Some s' \<and> 0 < aframe_sz s'
           \<and> clocks_ok (aframe_sz s') (out (app s'))
           \<and> video_pts (out (app s)) \<le> video_pts (out (app s'))
           \<and> audio_pts (out (app s)) \<le> audio_pts (out (app s'))"
proof -
  define Inv where "Inv = (\<lambda>r :: MainLoop. 0 < aframe_sz r \<and> clocks_ok (aframe_sz r) (out (app r))
      \<and> video_pts (out (app s)) \<le> video_pts (out (app r))
      \<and> audio_pts (out (app s)) \<le> audio_pts (out (app r)))"
  have "Inv s" using assms by (simp add: Inv_def)
  moreover have "\<exists>r'. tick cfg env r = Some r' \<and> Inv r'" if "Inv r" for env r
  proof -
    from that have "0 < aframe_sz r" "clocks_ok (aframe_sz r) (out (app r))"
      by (simp_all add: Inv_def)
    from tick_clocks [OF this, of cfg env] that show ?thesis
      by (fastforce simp add: Inv_def)
  qed
  ultimately show ?thesis
    using ticks_rule [of Inv s cfg envs] by (simp add: Inv_def)
qed

text \<open>
  C9. Both output clocks start at 0. After any run of the main loop the video frames
  sent carry the pts 0, 1, 2, ... and \<open>video_pts\<close> is their number, the audio frames
  sent carry the pts 0, \<open>aframe_sz\<close>, 2 \<open>aframe_sz\<close>, ... and \<open>audio_pts\<close> is
  \<open>aframe_sz\<close> times their number; when the run goes on, neither clock decreases.
  The clocks are functions of the numbers of frames sent alone.
\<close>

theorem output_clocks:
  assumes "out_fps cfg \<noteq> 0"
  shows "video_pts (out (initial_app fsz junk p1 p2)) = 0
       \<and> audio_pts (out (initial_app fsz junk p1 p2)) = 0
       \<and> (\<exists>s s'. main_loop cfg us envs (initial_app fsz junk p1 p2) = Some s
             \<and> main_loop cfg us (envs @ later) (initial_app fsz junk p1 p2) = Some s'
             \<and> clocks_ok (aframe_sz s) (out (app s))
             \<and> clocks_ok (aframe_sz s') (out (app s'))
             \<and> video_pts (out (app s)) \<le> video_pts (out (app s'))
             \<and> audio_pts (out (app s)) \<le> audio_pts (out (app s')))"
proof -
  define s0 where "s0 = main_loop_init us (initial_app fsz junk p1 p2)"
  have sz0: "0 < aframe_sz s0" and ok0: "clocks_ok (aframe_sz s0) (out (app s0))"
    by (simp_all add: s0_def main_loop_init_def initial_app_def clocks_ok_def)
  from ticks_clocks [OF sz0 ok0, of cfg envs] obtain s where
    s: "ticks cfg envs s0 = Some s" "0 < aframe_sz s" "clocks_ok (aframe_sz s) (out (app s))"
    by blast
  from ticks_clocks [OF s(2,3), of cfg later] obtain s' where
    s': "ticks cfg later s = Some s'" "clocks_ok (aframe_sz s') (out (app s'))"
    "video_pts (out (app s)) \<le> video_pts (out (app s'))"
    "audio_pts (out (app s)) \<le> audio_pts (out (app s'))"
    by blast
  have "ticks cfg (envs @ later) s0 = Some s'"
    using s(1) s'(1) by (simp add: ticks_append)
  with s s' assms have "\<exists>s s'. main_loop cfg us envs (initial_app fsz junk p1 p2) = Some s
             \<and> main_loop cfg us (envs @ later) (initial_app fsz junk p1 p2) = Some s'
             \<and> clocks_ok (aframe_sz s) (out (app s))
             \<and> clocks_ok (aframe_sz s') (out (app s'))
             \<and> video_pts (out (app s)) \<le> video_pts (out (app s'))
             \<and> audio_pts (out (app s)) \<le> audio_pts (out (app s'))"
    by (simp add: main_loop_def flip: s0_def)
  then show ?thesis by (simp add: initial_app_def)
qed

theorem output_clocks_witness:
  "out_fps ex_cfg \<noteq> 0
   \<and> (\<exists>s s'. main_loop ex_cfg 5000000 [tick_bg_only] (initial_app 1024 0xCDCDCDCD [] []) = Some s
         \<and> main_loop ex_cfg 5000000 ([tick_bg_only] @ [tick_bg_audio_burst])
              (initial_app 1024 0xCDCDCDCD [] []) = Some s'
         \<and> clocks_ok (aframe_sz s) (out (app s))
         \<and> clocks_ok (aframe_sz s') (out (app s'))
         \<and> video_pts (out (app s)) \<le> video_pts (out (app s'))
         \<and> audio_pts (out (app s)) \<le> audio_pts (out (app s')))"
proof -
  have h: "out_fps ex_cfg \<noteq> 0" by (simp add: ex_cfg_values)
  show ?thesis
    using h output_clocks [OF h, of 1024 "0xCDCDCDCD" "[]" "[]" 5000000 "[tick_bg_only]"
        "[tick_bg_audio_burst]"]
    by blast
qed

section \<open>The configuration file and the positional URL\<close>









text \<open>
  A configuration file that cannot be loaded (it cannot be opened, is empty or is
  longer than 65536 bytes) ends the process with code 1 before the URL is looked at,
  without the usage text.
\<close>

lemma config_load_failure_exits:
  assumes "parse_args (tl argv) None default_config = (Some path, cfg)"
    and "load_config strtol strtod fs path cfg = None"
  shows "main_startup strtol strtod fs argv = Exit 1 False"
  using assms by (simp add: main_startup_def)





end
